theory Spec2Isabelle
  imports Main "HOL-Library.Word"
begin

section \<open>The API controllers of the issuer node (internal/api/server.go)\<close>

text \<open>
  The package is the glue between the generated HTTP layer and the services of the
  issuer node. Every controller is a straight-line function: it validates its request,
  calls at most three methods of the injected services and picks a response object.

  Conventions of the embedding.
  \<^item> A Go function returning \<open>(value, error)\<close> is a function into \<open>go_error + value\<close>
    (\<open>Inl\<close> the error); one returning only \<open>error\<close> is a function into
    \<open>go_error option\<close> (\<open>None\<close> is \<open>nil\<close>).
  \<^item> A controller returns Go's pair \<open>(ResponseObject, error)\<close>: a pair of two options,
    \<open>None\<close> standing for \<open>nil\<close>.
  \<^item> The services are interfaces whose implementations live outside this file. They are
    the fields of the record \<open>Server\<close>; each method takes the state of the world outside
    the controller and returns the new one. The controllers run on a pair of that world
    and the list of the service methods invoked so far.
  \<^item> Functions and methods of imported packages (\<open>core.ParseDID\<close>, \<open>uuid.Parse\<close>, the
    constructors of package \<open>ports\<close>, \<open>Hash.MarshalText\<close>) have no source here; they
    are the fields of the record \<open>Packages\<close>, a parameter of the controllers using them.
  \<^item> A pointer that the source tests against \<open>nil\<close>, copies or writes is an option. A
    pointer that the source dereferences without a test is the value it points to.
  \<^item> The \<open>context.Context\<close> argument is handed on unchanged and is left out.
  \<^item> A response object is a value of one of the generated response types, whose name
    carries the HTTP status it is written with (\<open>CreateClaim400JSONResponse\<close> is the
    400 answer of \<open>CreateClaim\<close>). Each is a constructor of the datatype of the
    controller's \<open>ResponseObject\<close> interface.
  \<^item> \<open>Health\<close>, \<open>GetDocumentation\<close>, \<open>GetYaml\<close> and the static file routes take no
    identifier and call none of the services; they are not embedded.
\<close>

subsection \<open>Errors\<close>

text \<open>
  The sentinel errors are package variables of \<open>services\<close>, \<open>repositories\<close> and
  \<open>gateways\<close>, made by \<open>errors.New\<close>; \<open>errors.Is\<close> finds them by identity (the
  pointer), never by their text. \<open>err_ident\<close> is that identity: one constructor for each
  sentinel the controllers test, \<open>OtherError\<close> for every other error value.
\<close>

datatype err_ident =
    ErrWrongDIDMetada
  | ErrJSONLdContext
  | ErrProcessSchema
  | ErrLoadingSchema
  | ErrMalformedURL
  | ErrClaimDoesNotExist
  | ErrClaimNotFound
  | ErrNoStatesToProcess
  | ErrStateIsBeingProcessed
  | OtherError nat

text \<open>
  An error value is one of four kinds.
  \<^item> \<open>New i m\<close>: made by \<open>errors.New\<close>, with identity \<open>i\<close> and message \<open>m\<close>. The
    declarations of the sentinels are outside this file, so the text of a sentinel
    travels with the value.
  \<^item> \<open>Wrap m e\<close>: wraps one error under a message of its own (\<open>fmt.Errorf\<close> with one
    \<open>%w\<close>); its method \<open>Unwrap() error\<close> returns \<open>e\<close>.
  \<^item> \<open>Join m es\<close>: wraps several errors (\<open>errors.Join\<close>, \<open>fmt.Errorf\<close> with several
    \<open>%w\<close>); its method \<open>Unwrap() []error\<close> returns \<open>es\<close>.
  \<^item> \<open>WithIs m ts u\<close>: a value of an error type with a method \<open>Is(target) bool\<close> of its
    own, which answers true on the sentinels \<open>ts\<close>, and which may unwrap to \<open>u\<close>.
  So one error value can match several sentinels.
\<close>

datatype go_error =
    New err_ident string
  | Wrap string go_error
  | Join string "go_error list"
  | WithIs string "err_ident list" "go_error option"

fun Error :: "go_error \<Rightarrow> string" where
  "Error (New i m) = m"
| "Error (Wrap m e) = m"
| "Error (Join m es) = m"
| "Error (WithIs m ts u) = m"

text \<open>
  \<open>errors.Is(err, target)\<close> for a sentinel \<open>target\<close>, as the standard library walks the
  tree of \<open>err\<close>: the value itself is compared with the target, then its own \<open>Is\<close>
  method is asked, then the search goes on in what it unwraps to, depth first.
\<close>

fun errors_Is :: "go_error \<Rightarrow> err_ident \<Rightarrow> bool" where
  "errors_Is (New i m) target = (i = target)"
| "errors_Is (Wrap m e) target = errors_Is e target"
| "errors_Is (Join m es) target = list_ex (\<lambda>e. errors_Is e target) es"
| "errors_Is (WithIs m ts u) target =
     (if target \<in> set ts then True
      else case u of None \<Rightarrow> False | Some e \<Rightarrow> errors_Is e target)"

subsection \<open>Basic types\<close>

type_synonym byte = "8 word"
type_synonym ByteArray = "byte list"
type_synonym Hash = "byte list"
type_synonym int64 = "64 word"
type_synonym uint64 = "64 word"
type_synonym uint32 = "32 word"
type_synonym Time = int

text \<open>A value of type \<open>interface{}\<close> or \<open>map[string]interface{}\<close> holding decoded JSON.\<close>

datatype json =
    JNull
  | JBool bool
  | JNumber int
  | JString string
  | JArray "json list"
  | JObject "(string \<times> json) list"

text \<open>\<open>core.DID\<close> and \<open>uuid.UUID\<close>, each carried by its canonical text.\<close>

datatype DID = DID string
datatype UUID = UUID string

fun UUID_String :: "UUID \<Rightarrow> string" where
  "UUID_String (UUID s) = s"

text \<open>
  An \<open>int64\<close> is read with \<open>sint\<close>, a \<open>uint64\<close> with \<open>unat\<close>. The conversion
  \<open>uint64(n)\<close> keeps the 64 bits: a negative nonce becomes a large unsigned one.
\<close>

definition uint64 :: "int64 \<Rightarrow> uint64" where
  "uint64 n = word_of_int (sint n)"

text \<open>The conversion \<open>[]byte(s)\<close> of a string.\<close>

definition bytes :: "string \<Rightarrow> ByteArray" where
  "bytes s = map (\<lambda>c. word_of_nat (of_char c)) s"

subsection \<open>The shared error bodies of the generated API\<close>

datatype N400JSONResponse = N400JSONResponse string
datatype N404JSONResponse = N404JSONResponse string
datatype N422JSONResponse = N422JSONResponse string
datatype N500JSONResponse = N500JSONResponse string

subsection \<open>Invoking a service\<close>

datatype call =
    IdentityService_Create
  | IdentityService_Get
  | ClaimsService_CreateClaim
  | ClaimsService_Revoke
  | ClaimsService_GetRevocationStatus
  | ClaimsService_GetByID
  | ClaimsService_GetAll
  | ClaimsService_Agent
  | SchemaService_FromClaimModelToW3CCredential
  | Publisher_PublishState
  | PackageManager_UnpackWithType

type_synonym 'w sys = "'w \<times> call list"

definition invoke :: "call \<Rightarrow> ('w \<Rightarrow> 'a \<times> 'w) \<Rightarrow> 'w sys \<Rightarrow> 'a \<times> 'w sys" where
  "invoke c m \<sigma> = (case m (fst \<sigma>) of (r, w') \<Rightarrow> (r, (w', snd \<sigma> @ [c])))"

subsection \<open>Values exchanged with the services\<close>

text \<open>
  The types of packages \<open>domain\<close>, \<open>ports\<close>, \<open>verifiable\<close>, \<open>merkletree\<close> and
  \<open>iden3comm\<close>. A record lists the fields the controllers read. A value the controllers
  only hand on (a request built by a constructor of \<open>ports\<close>, an unpacked message) is
  carried as a JSON tree under a constructor of its own.
\<close>

record Configuration =
  ServerUrl :: string

record DomainIdentityState =
  dis_BlockNumber :: "int option"
  dis_BlockTimestamp :: "int option"
  dis_ClaimsTreeRoot :: "string option"
  dis_CreatedAt :: Time
  dis_ModifiedAt :: Time
  dis_PreviousState :: "string option"
  dis_RevocationTreeRoot :: "string option"
  dis_RootOfRoots :: "string option"
  dis_State :: "string option"
  dis_Status :: string
  dis_TxID :: "string option"

record Identity =
  idn_Identifier :: string
  idn_State :: DomainIdentityState

record Claim =
  cl_ID :: UUID
  cl_fields :: json

datatype CreateClaimRequest = CreateClaimRequest json
datatype ClaimsFilter = ClaimsFilter json
datatype BasicMessage = BasicMessage json
datatype AgentRequest = AgentRequest json

record DomainAgent =
  da_Body :: json
  da_From :: string
  da_ID :: string
  da_ThreadID :: string
  da_To :: string
  da_Typ :: string
  da_Type :: string

record PublishedState =
  ps_ClaimsTreeRoot :: "string option"
  ps_RevocationTreeRoot :: "string option"
  ps_RootOfRoots :: "string option"
  ps_State :: "string option"
  ps_TxID :: "string option"

text \<open>
  \<open>merkletree.Proof\<close>: the existence flag, the optional auxiliary node, and the result
  of its method \<open>AllSiblings()\<close>, which the library computes from the private fields of
  the proof.
\<close>

record NodeAux =
  aux_Key :: Hash
  aux_Value :: Hash

record Proof =
  mtp_Existence :: bool
  mtp_NodeAux :: "NodeAux option"
  mtp_AllSiblings :: "Hash list"

record RevocationStatusIssuer =
  rsi_State :: "string option"
  rsi_RootOfRoots :: "string option"
  rsi_ClaimsTreeRoot :: "string option"
  rsi_RevocationTreeRoot :: "string option"

record RevocationStatus =
  rs_Issuer :: RevocationStatusIssuer
  rs_MTP :: Proof

record W3CCredentialSchema =
  wcs_ID :: string
  wcs_Type :: string

record W3CCredential =
  w3c_ID :: string
  w3c_Context :: "string list"
  w3c_Type :: "string list"
  w3c_Expiration :: "Time option"
  w3c_IssuanceDate :: "Time option"
  w3c_CredentialSubject :: json
  w3c_CredentialStatus :: json
  w3c_Issuer :: string
  w3c_CredentialSchema :: W3CCredentialSchema
  w3c_Proof :: json

subsection \<open>The services and the imported packages\<close>

record 'w IdentityService =
  identity_Create :: "string \<Rightarrow> string \<Rightarrow> string \<Rightarrow> string \<Rightarrow> 'w \<Rightarrow> (go_error + Identity) \<times> 'w"
  identity_Get :: "'w \<Rightarrow> (go_error + string list) \<times> 'w"

record 'w ClaimsService =
  claims_CreateClaim :: "CreateClaimRequest \<Rightarrow> 'w \<Rightarrow> (go_error + Claim) \<times> 'w"
  claims_Revoke :: "string \<Rightarrow> uint64 \<Rightarrow> string \<Rightarrow> 'w \<Rightarrow> go_error option \<times> 'w"
  claims_GetRevocationStatus :: "string \<Rightarrow> uint64 \<Rightarrow> 'w \<Rightarrow> (go_error + RevocationStatus) \<times> 'w"
  claims_GetByID :: "DID \<Rightarrow> UUID \<Rightarrow> 'w \<Rightarrow> (go_error + Claim) \<times> 'w"
  claims_GetAll :: "DID \<Rightarrow> ClaimsFilter \<Rightarrow> 'w \<Rightarrow> (go_error + W3CCredential list) \<times> 'w"
  claims_Agent :: "AgentRequest \<Rightarrow> 'w \<Rightarrow> (go_error + DomainAgent) \<times> 'w"

record 'w SchemaService =
  schema_FromClaimModelToW3CCredential :: "Claim \<Rightarrow> 'w \<Rightarrow> (go_error + W3CCredential) \<times> 'w"

record 'w Publisher =
  publisher_PublishState :: "DID \<Rightarrow> 'w \<Rightarrow> (go_error + PublishedState) \<times> 'w"

record 'w PackageManager =
  pm_UnpackWithType :: "string \<Rightarrow> ByteArray \<Rightarrow> 'w \<Rightarrow> (go_error + BasicMessage) \<times> 'w"

text \<open>The struct \<open>Server\<close> (its field \<open>health\<close> is read by no controller below).\<close>

record 'w Server =
  cfg :: Configuration
  identityService :: "'w IdentityService"
  claimService :: "'w ClaimsService"
  schemaService :: "'w SchemaService"
  publisherGateway :: "'w Publisher"
  packageManager :: "'w PackageManager"

record Packages =
  core_ParseDID :: "string \<Rightarrow> go_error + DID"
  uuid_Parse :: "string \<Rightarrow> go_error + UUID"
  ports_NewCreateClaimRequest ::
    "DID \<Rightarrow> string \<Rightarrow> json \<Rightarrow> int64 option \<Rightarrow> string \<Rightarrow> uint32 option \<Rightarrow>
     string option \<Rightarrow> string option \<Rightarrow> CreateClaimRequest"
  ports_NewClaimsFilter ::
    "string option \<Rightarrow> string option \<Rightarrow> string option \<Rightarrow> string option \<Rightarrow>
     bool option \<Rightarrow> bool option \<Rightarrow> go_error + ClaimsFilter"
  ports_NewAgentRequest :: "BasicMessage \<Rightarrow> go_error + AgentRequest"
  packers_MediaTypeZKPMessage :: string
  Hash_MarshalText :: "Hash \<Rightarrow> ByteArray \<times> go_error option"

subsection \<open>Request and response objects of the generated API\<close>

record DidMetadata =
  dm_Method :: string
  dm_Blockchain :: string
  dm_Network :: string

record CreateIdentityRequestBody =
  cib_DidMetadata :: DidMetadata

record CreateIdentityRequestObject =
  cir_Body :: CreateIdentityRequestBody

record IdentityState =
  is_BlockNumber :: "int option"
  is_BlockTimestamp :: "int option"
  is_ClaimsTreeRoot :: "string option"
  is_CreatedAt :: Time
  is_ModifiedAt :: Time
  is_PreviousState :: "string option"
  is_RevocationTreeRoot :: "string option"
  is_RootOfRoots :: "string option"
  is_State :: "string option"
  is_Status :: string
  is_TxID :: "string option"

record CreateIdentityResponse =
  cid_Identifier :: "string option"
  cid_State :: "IdentityState option"

datatype CreateIdentityResponseObject =
    CreateIdentity201JSONResponse CreateIdentityResponse
  | CreateIdentity400JSONResponse N400JSONResponse

record CreateClaimRequestBody =
  ccb_CredentialSchema :: string
  ccb_CredentialSubject :: json
  ccb_Expiration :: "int64 option"
  ccb_Type :: string
  ccb_Version :: "uint32 option"
  ccb_SubjectPosition :: "string option"
  ccb_MerklizedRootPosition :: "string option"

record CreateClaimRequestObject =
  cc_Identifier :: string
  cc_Body :: CreateClaimRequestBody

datatype CreateClaimResponseObject =
    CreateClaim201JSONResponse string
  | CreateClaim400JSONResponse N400JSONResponse
  | CreateClaim422JSONResponse N422JSONResponse
  | CreateClaim500JSONResponse N500JSONResponse

record RevokeClaimRequestObject =
  rv_Identifier :: string
  rv_Nonce :: int64

datatype RevokeClaimResponseObject =
    RevokeClaim202JSONResponse string
  | RevokeClaim404JSONResponse N404JSONResponse
  | RevokeClaim500JSONResponse N500JSONResponse

record GetRevocationStatusRequestObject =
  grs_Identifier :: string
  grs_Nonce :: int64

record RevocationStatusResponseIssuer =
  ri_ClaimsTreeRoot :: "string option"
  ri_RevocationTreeRoot :: "string option"
  ri_RootOfRoots :: "string option"
  ri_State :: "string option"

record RevocationStatusResponseNodeAux =
  rn_Key :: "ByteArray option"
  rn_Value :: "ByteArray option"

record RevocationStatusResponseMtp =
  rm_Existence :: bool
  rm_NodeAux :: "RevocationStatusResponseNodeAux option"
  rm_Siblings :: "ByteArray list option"

record RevocationStatusResponse =
  rr_Issuer :: RevocationStatusResponseIssuer
  rr_Mtp :: RevocationStatusResponseMtp

datatype GetRevocationStatusResponseObject =
    GetRevocationStatus200JSONResponse RevocationStatusResponse
  | GetRevocationStatus500JSONResponse N500JSONResponse

record GetClaimRequestObject =
  gc_Identifier :: string
  gc_Id :: string

record CredentialSchema =
  cs_Id :: string
  cs_Type :: string

record GetClaimResponse =
  gcr_Context :: "string list"
  gcr_CredentialSchema :: CredentialSchema
  gcr_CredentialStatus :: json
  gcr_CredentialSubject :: json
  gcr_Expiration :: "Time option"
  gcr_Id :: string
  gcr_IssuanceDate :: "Time option"
  gcr_Issuer :: string
  gcr_Proof :: json
  gcr_Type :: "string list"

datatype GetClaimResponseObject =
    GetClaim200JSONResponse GetClaimResponse
  | GetClaim400JSONResponse N400JSONResponse
  | GetClaim404JSONResponse N404JSONResponse
  | GetClaim500JSONResponse N500JSONResponse

record GetClaimsParams =
  gp_SchemaHash :: "string option"
  gp_SchemaType :: "string option"
  gp_Subject :: "string option"
  gp_QueryField :: "string option"
  gp_Self :: "bool option"
  gp_Revoked :: "bool option"

record GetClaimsRequestObject =
  gcs_Identifier :: string
  gcs_Params :: GetClaimsParams

datatype GetClaimsResponseObject =
    GetClaims200JSONResponse "GetClaimResponse list"
  | GetClaims400JSONResponse N400JSONResponse
  | GetClaims500JSONResponse N500JSONResponse

datatype GetIdentitiesResponseObject =
    GetIdentities200JSONResponse "string list"
  | GetIdentities500JSONResponse N500JSONResponse

record AgentRequestObject =
  agr_Body :: "string option"

record AgentResponse =
  ar_Body :: json
  ar_From :: string
  ar_Id :: string
  ar_ThreadID :: string
  ar_To :: string
  ar_Typ :: string
  ar_Type :: string

datatype AgentResponseObject =
    Agent200JSONResponse AgentResponse
  | Agent400JSONResponse N400JSONResponse

record PublishIdentityStateRequestObject =
  pis_Identifier :: string

record PublishIdentityStateResponse =
  pr_ClaimsTreeRoot :: "string option"
  pr_RevocationTreeRoot :: "string option"
  pr_RootOfRoots :: "string option"
  pr_State :: "string option"
  pr_TxID :: "string option"

datatype PublishIdentityStateResponseObject =
    PublishIdentityState200JSONResponse string
  | PublishIdentityState202JSONResponse PublishIdentityStateResponse
  | PublishIdentityState400JSONResponse N400JSONResponse
  | PublishIdentityState500JSONResponse N500JSONResponse

subsection \<open>The controllers\<close>

type_synonym ('r, 'w) controller_result = "('r option \<times> go_error option) \<times> 'w sys"

definition CreateIdentity ::
  "'w Server \<Rightarrow> CreateIdentityRequestObject \<Rightarrow> 'w sys \<Rightarrow>
   (CreateIdentityResponseObject, 'w) controller_result" where
  "CreateIdentity s request \<sigma> =
    (let method = dm_Method (cib_DidMetadata (cir_Body request));
         blockchain = dm_Blockchain (cib_DidMetadata (cir_Body request));
         network = dm_Network (cib_DidMetadata (cir_Body request))
     in case invoke IdentityService_Create
               (identity_Create (identityService s) method blockchain network (ServerUrl (cfg s))) \<sigma> of
          (Inl err, \<sigma>') \<Rightarrow>
            if errors_Is err ErrWrongDIDMetada
            then ((Some (CreateIdentity400JSONResponse (N400JSONResponse (Error err))), None), \<sigma>')
            else ((None, Some err), \<sigma>')
        | (Inr identity, \<sigma>') \<Rightarrow>
            ((Some (CreateIdentity201JSONResponse
               \<lparr>cid_Identifier = Some (idn_Identifier identity),
                cid_State = Some
                  \<lparr>is_BlockNumber = dis_BlockNumber (idn_State identity),
                   is_BlockTimestamp = dis_BlockTimestamp (idn_State identity),
                   is_ClaimsTreeRoot = dis_ClaimsTreeRoot (idn_State identity),
                   is_CreatedAt = dis_CreatedAt (idn_State identity),
                   is_ModifiedAt = dis_ModifiedAt (idn_State identity),
                   is_PreviousState = dis_PreviousState (idn_State identity),
                   is_RevocationTreeRoot = dis_RevocationTreeRoot (idn_State identity),
                   is_RootOfRoots = dis_RootOfRoots (idn_State identity),
                   is_State = dis_State (idn_State identity),
                   is_Status = dis_Status (idn_State identity),
                   is_TxID = dis_TxID (idn_State identity)\<rparr>\<rparr>), None), \<sigma>'))"

definition CreateClaim ::
  "Packages \<Rightarrow> 'w Server \<Rightarrow> CreateClaimRequestObject \<Rightarrow> 'w sys \<Rightarrow>
   (CreateClaimResponseObject, 'w) controller_result" where
  "CreateClaim P s request \<sigma> =
    (case core_ParseDID P (cc_Identifier request) of
       Inl err \<Rightarrow> ((Some (CreateClaim400JSONResponse (N400JSONResponse (Error err))), None), \<sigma>)
     | Inr did \<Rightarrow>
        (let req = ports_NewCreateClaimRequest P did
                     (ccb_CredentialSchema (cc_Body request))
                     (ccb_CredentialSubject (cc_Body request))
                     (ccb_Expiration (cc_Body request))
                     (ccb_Type (cc_Body request))
                     (ccb_Version (cc_Body request))
                     (ccb_SubjectPosition (cc_Body request))
                     (ccb_MerklizedRootPosition (cc_Body request))
         in case invoke ClaimsService_CreateClaim (claims_CreateClaim (claimService s) req) \<sigma> of
              (Inl err, \<sigma>') \<Rightarrow>
                if errors_Is err ErrJSONLdContext
                then ((Some (CreateClaim400JSONResponse (N400JSONResponse (Error err))), None), \<sigma>')
                else if errors_Is err ErrProcessSchema
                then ((Some (CreateClaim400JSONResponse (N400JSONResponse (Error err))), None), \<sigma>')
                else if errors_Is err ErrLoadingSchema
                then ((Some (CreateClaim422JSONResponse (N422JSONResponse (Error err))), None), \<sigma>')
                else if errors_Is err ErrMalformedURL
                then ((Some (CreateClaim400JSONResponse (N400JSONResponse (Error err))), None), \<sigma>')
                else ((Some (CreateClaim500JSONResponse (N500JSONResponse (Error err))), None), \<sigma>')
            | (Inr resp, \<sigma>') \<Rightarrow>
                ((Some (CreateClaim201JSONResponse (UUID_String (cl_ID resp))), None), \<sigma>')))"

definition RevokeClaim ::
  "'w Server \<Rightarrow> RevokeClaimRequestObject \<Rightarrow> 'w sys \<Rightarrow>
   (RevokeClaimResponseObject, 'w) controller_result" where
  "RevokeClaim s request \<sigma> =
    (case invoke ClaimsService_Revoke
            (claims_Revoke (claimService s) (rv_Identifier request) (uint64 (rv_Nonce request)) '''') \<sigma> of
       (Some err, \<sigma>') \<Rightarrow>
         if errors_Is err ErrClaimDoesNotExist
         then ((Some (RevokeClaim404JSONResponse (N404JSONResponse ''the claim does not exist'')), None), \<sigma>')
         else ((Some (RevokeClaim500JSONResponse (N500JSONResponse (Error err))), None), \<sigma>')
     | (None, \<sigma>') \<Rightarrow>
         ((Some (RevokeClaim202JSONResponse ''claim revocation request sent''), None), \<sigma>'))"

text \<open>
  The loop of \<open>GetRevocationStatus\<close> over \<open>rs.MTP.AllSiblings()\<close>: each sibling is
  encoded by \<open>MarshalText\<close> (its error is dropped) and appended to the slice.
\<close>

fun siblings_loop :: "Packages \<Rightarrow> Hash list \<Rightarrow> ByteArray list \<Rightarrow> ByteArray list" where
  "siblings_loop P [] siblings = siblings"
| "siblings_loop P (s # rest) siblings =
     (let sb = fst (Hash_MarshalText P s) in siblings_loop P rest (siblings @ [sb]))"

text \<open>The zero value \<open>GetRevocationStatus200JSONResponse{}\<close>.\<close>

definition RevocationStatusResponse_zero :: RevocationStatusResponse where
  "RevocationStatusResponse_zero =
     \<lparr>rr_Issuer = \<lparr>ri_ClaimsTreeRoot = None, ri_RevocationTreeRoot = None,
                    ri_RootOfRoots = None, ri_State = None\<rparr>,
      rr_Mtp = \<lparr>rm_Existence = False, rm_NodeAux = None, rm_Siblings = None\<rparr>\<rparr>"

text \<open>
  The part of \<open>GetRevocationStatus\<close> after the call of the service: the assignments to
  \<open>response\<close>, one after the other.
\<close>

definition assemble_response :: "Packages \<Rightarrow> RevocationStatus \<Rightarrow> RevocationStatusResponse" where
  "assemble_response P rs =
    (let response = RevocationStatusResponse_zero;
         response = response\<lparr>rr_Issuer := (rr_Issuer response)\<lparr>ri_State := rsi_State (rs_Issuer rs)\<rparr>\<rparr>;
         response = response\<lparr>rr_Issuer := (rr_Issuer response)
                      \<lparr>ri_RevocationTreeRoot := rsi_RevocationTreeRoot (rs_Issuer rs)\<rparr>\<rparr>;
         response = response\<lparr>rr_Issuer := (rr_Issuer response)\<lparr>ri_RootOfRoots := rsi_RootOfRoots (rs_Issuer rs)\<rparr>\<rparr>;
         response = response\<lparr>rr_Issuer := (rr_Issuer response)
                      \<lparr>ri_ClaimsTreeRoot := rsi_ClaimsTreeRoot (rs_Issuer rs)\<rparr>\<rparr>;
         response = response\<lparr>rr_Mtp := (rr_Mtp response)\<lparr>rm_Existence := mtp_Existence (rs_MTP rs)\<rparr>\<rparr>;
         response =
           (case mtp_NodeAux (rs_MTP rs) of
              Some aux \<Rightarrow>
                (let key = fst (Hash_MarshalText P (aux_Key aux));
                     val = fst (Hash_MarshalText P (aux_Value aux))
                 in response\<lparr>rr_Mtp := (rr_Mtp response)
                      \<lparr>rm_NodeAux := Some \<lparr>rn_Key = Some key, rn_Value = Some val\<rparr>\<rparr>\<rparr>)
            | None \<Rightarrow> response);
         response = response\<lparr>rr_Mtp := (rr_Mtp response)\<lparr>rm_Existence := mtp_Existence (rs_MTP rs)\<rparr>\<rparr>;
         siblings = siblings_loop P (mtp_AllSiblings (rs_MTP rs)) [];
         response = response\<lparr>rr_Mtp := (rr_Mtp response)\<lparr>rm_Siblings := Some siblings\<rparr>\<rparr>
     in response)"

definition GetRevocationStatus ::
  "Packages \<Rightarrow> 'w Server \<Rightarrow> GetRevocationStatusRequestObject \<Rightarrow> 'w sys \<Rightarrow>
   (GetRevocationStatusResponseObject, 'w) controller_result" where
  "GetRevocationStatus P s request \<sigma> =
    (case invoke ClaimsService_GetRevocationStatus
            (claims_GetRevocationStatus (claimService s) (grs_Identifier request)
               (uint64 (grs_Nonce request))) \<sigma> of
       (Inl err, \<sigma>') \<Rightarrow>
         ((Some (GetRevocationStatus500JSONResponse (N500JSONResponse (Error err))), None), \<sigma>')
     | (Inr rs, \<sigma>') \<Rightarrow>
         ((Some (GetRevocationStatus200JSONResponse (assemble_response P rs)), None), \<sigma>'))"

subsection \<open>Shaping credentials\<close>

definition toGetClaim200Response :: "W3CCredential \<Rightarrow> GetClaimResponse" where
  "toGetClaim200Response claim =
     \<lparr>gcr_Context = w3c_Context claim,
      gcr_CredentialSchema =
        \<lparr>cs_Id = wcs_ID (w3c_CredentialSchema claim), cs_Type = wcs_Type (w3c_CredentialSchema claim)\<rparr>,
      gcr_CredentialStatus = w3c_CredentialStatus claim,
      gcr_CredentialSubject = w3c_CredentialSubject claim,
      gcr_Expiration = w3c_Expiration claim,
      gcr_Id = w3c_ID claim,
      gcr_IssuanceDate = w3c_IssuanceDate claim,
      gcr_Issuer = w3c_Issuer claim,
      gcr_Proof = w3c_Proof claim,
      gcr_Type = w3c_Type claim\<rparr>"

text \<open>The zero value of \<open>GetClaimResponse\<close>, which \<open>make\<close> fills the new slice with.\<close>

definition GetClaimResponse_zero :: GetClaimResponse where
  "GetClaimResponse_zero =
     \<lparr>gcr_Context = [], gcr_CredentialSchema = \<lparr>cs_Id = [], cs_Type = []\<rparr>,
      gcr_CredentialStatus = JNull, gcr_CredentialSubject = JNull, gcr_Expiration = None,
      gcr_Id = [], gcr_IssuanceDate = None, gcr_Issuer = [], gcr_Proof = JNull, gcr_Type = []\<rparr>"

text \<open>
  The loop \<open>for i := range claims\<close> of \<open>toGetClaims200Response\<close>, from index \<open>i\<close> on:
  \<open>response[i] = toGetClaim200Response(claims[i])\<close>.
\<close>

function toGetClaims200Response_loop ::
  "nat \<Rightarrow> W3CCredential list \<Rightarrow> GetClaimResponse list \<Rightarrow> GetClaimResponse list" where
  "toGetClaims200Response_loop i claims response =
     (if i < length claims
      then toGetClaims200Response_loop (Suc i) claims (response[i := toGetClaim200Response (claims ! i)])
      else response)"
  by pat_completeness auto
termination
  by (relation "measure (\<lambda>(i, claims, response). length claims - i)") auto

declare toGetClaims200Response_loop.simps [simp del]

definition toGetClaims200Response :: "W3CCredential list \<Rightarrow> GetClaimResponse list" where
  "toGetClaims200Response claims =
     (let response = replicate (length claims) GetClaimResponse_zero
      in toGetClaims200Response_loop 0 claims response)"

subsection \<open>The controllers, continued\<close>

definition GetClaim ::
  "Packages \<Rightarrow> 'w Server \<Rightarrow> GetClaimRequestObject \<Rightarrow> 'w sys \<Rightarrow>
   (GetClaimResponseObject, 'w) controller_result" where
  "GetClaim P s request \<sigma> =
    (if gc_Identifier request = ''''
     then ((Some (GetClaim400JSONResponse (N400JSONResponse ''invalid did, can not be empty'')), None), \<sigma>)
     else case core_ParseDID P (gc_Identifier request) of
       Inl err \<Rightarrow> ((Some (GetClaim400JSONResponse (N400JSONResponse ''invalid did'')), None), \<sigma>)
     | Inr did \<Rightarrow>
       (if gc_Id request = ''''
        then ((Some (GetClaim400JSONResponse
                (N400JSONResponse ''can not proceed with an empty claim id'')), None), \<sigma>)
        else case uuid_Parse P (gc_Id request) of
          Inl err \<Rightarrow> ((Some (GetClaim400JSONResponse (N400JSONResponse ''invalid claim id'')), None), \<sigma>)
        | Inr clID \<Rightarrow>
           (case invoke ClaimsService_GetByID (claims_GetByID (claimService s) did clID) \<sigma> of
              (Inl err, \<sigma>') \<Rightarrow>
                if errors_Is err ErrClaimNotFound
                then ((Some (GetClaim404JSONResponse (N404JSONResponse (Error err))), None), \<sigma>')
                else ((Some (GetClaim500JSONResponse (N500JSONResponse (Error err))), None), \<sigma>')
            | (Inr claim, \<sigma>') \<Rightarrow>
               (case invoke SchemaService_FromClaimModelToW3CCredential
                       (schema_FromClaimModelToW3CCredential (schemaService s) claim) \<sigma>' of
                  (Inl err, \<sigma>'') \<Rightarrow>
                    ((Some (GetClaim500JSONResponse (N500JSONResponse ''invalid claim format'')), None), \<sigma>'')
                | (Inr w3c, \<sigma>'') \<Rightarrow>
                    ((Some (GetClaim200JSONResponse (toGetClaim200Response w3c)), None), \<sigma>'')))))"

definition GetClaims ::
  "Packages \<Rightarrow> 'w Server \<Rightarrow> GetClaimsRequestObject \<Rightarrow> 'w sys \<Rightarrow>
   (GetClaimsResponseObject, 'w) controller_result" where
  "GetClaims P s request \<sigma> =
    (if gcs_Identifier request = ''''
     then ((Some (GetClaims400JSONResponse (N400JSONResponse ''invalid did, can not be empty'')), None), \<sigma>)
     else case core_ParseDID P (gcs_Identifier request) of
       Inl err \<Rightarrow> ((Some (GetClaims400JSONResponse (N400JSONResponse ''invalid did'')), None), \<sigma>)
     | Inr did \<Rightarrow>
        (case ports_NewClaimsFilter P
                (gp_SchemaHash (gcs_Params request)) (gp_SchemaType (gcs_Params request))
                (gp_Subject (gcs_Params request)) (gp_QueryField (gcs_Params request))
                (gp_Self (gcs_Params request)) (gp_Revoked (gcs_Params request)) of
           Inl err \<Rightarrow> ((Some (GetClaims400JSONResponse (N400JSONResponse (Error err))), None), \<sigma>)
         | Inr filter' \<Rightarrow>
            (case invoke ClaimsService_GetAll (claims_GetAll (claimService s) did filter') \<sigma> of
               (Inl err, \<sigma>') \<Rightarrow>
                 ((Some (GetClaims500JSONResponse (N500JSONResponse
                    ''there was an internal error trying to retrieve claims for the requested identifier'')),
                   None), \<sigma>')
             | (Inr claims, \<sigma>') \<Rightarrow>
                 ((Some (GetClaims200JSONResponse (toGetClaims200Response claims)), None), \<sigma>'))))"

definition GetIdentities ::
  "'w Server \<Rightarrow> 'w sys \<Rightarrow> (GetIdentitiesResponseObject, 'w) controller_result" where
  "GetIdentities s \<sigma> =
    (case invoke IdentityService_Get (identity_Get (identityService s)) \<sigma> of
       (Inl err, \<sigma>') \<Rightarrow>
         ((Some (GetIdentities500JSONResponse (N500JSONResponse (Error err))), None), \<sigma>')
     | (Inr response, \<sigma>') \<Rightarrow> ((Some (GetIdentities200JSONResponse response), None), \<sigma>'))"

definition Agent ::
  "Packages \<Rightarrow> 'w Server \<Rightarrow> AgentRequestObject \<Rightarrow> 'w sys \<Rightarrow>
   (AgentResponseObject, 'w) controller_result" where
  "Agent P s request \<sigma> =
    (case agr_Body request of
       None \<Rightarrow>
         ((Some (Agent400JSONResponse (N400JSONResponse ''can not proceed with an empty request'')), None), \<sigma>)
     | Some body \<Rightarrow>
       (if body = ''''
        then ((Some (Agent400JSONResponse
                (N400JSONResponse ''can not proceed with an empty request'')), None), \<sigma>)
        else case invoke PackageManager_UnpackWithType
                    (pm_UnpackWithType (packageManager s) (packers_MediaTypeZKPMessage P) (bytes body)) \<sigma> of
          (Inl err, \<sigma>') \<Rightarrow>
            ((Some (Agent400JSONResponse
               (N400JSONResponse ''can not proceed with the given request'')), None), \<sigma>')
        | (Inr basicMessage, \<sigma>') \<Rightarrow>
           (case ports_NewAgentRequest P basicMessage of
              Inl err \<Rightarrow> ((Some (Agent400JSONResponse (N400JSONResponse (Error err))), None), \<sigma>')
            | Inr req \<Rightarrow>
               (case invoke ClaimsService_Agent (claims_Agent (claimService s) req) \<sigma>' of
                  (Inl err, \<sigma>'') \<Rightarrow>
                    ((Some (Agent400JSONResponse (N400JSONResponse (Error err))), None), \<sigma>'')
                | (Inr agent, \<sigma>'') \<Rightarrow>
                    ((Some (Agent200JSONResponse
                       \<lparr>ar_Body = da_Body agent,
                        ar_From = da_From agent,
                        ar_Id = da_ID agent,
                        ar_ThreadID = da_ThreadID agent,
                        ar_To = da_To agent,
                        ar_Typ = da_Typ agent,
                        ar_Type = da_Type agent\<rparr>), None), \<sigma>'')))))"

definition PublishIdentityState ::
  "Packages \<Rightarrow> 'w Server \<Rightarrow> PublishIdentityStateRequestObject \<Rightarrow> 'w sys \<Rightarrow>
   (PublishIdentityStateResponseObject, 'w) controller_result" where
  "PublishIdentityState P s request \<sigma> =
    (case core_ParseDID P (pis_Identifier request) of
       Inl err \<Rightarrow> ((Some (PublishIdentityState400JSONResponse (N400JSONResponse ''invalid did'')), None), \<sigma>)
     | Inr did \<Rightarrow>
        (case invoke Publisher_PublishState (publisher_PublishState (publisherGateway s) did) \<sigma> of
           (Inl err, \<sigma>') \<Rightarrow>
             if errors_Is err ErrNoStatesToProcess \<or> errors_Is err ErrStateIsBeingProcessed
             then ((Some (PublishIdentityState200JSONResponse (Error err)), None), \<sigma>')
             else ((Some (PublishIdentityState500JSONResponse (N500JSONResponse (Error err))), None), \<sigma>')
         | (Inr publishedState, \<sigma>') \<Rightarrow>
             ((Some (PublishIdentityState202JSONResponse
                \<lparr>pr_ClaimsTreeRoot = ps_ClaimsTreeRoot publishedState,
                 pr_RevocationTreeRoot = ps_RevocationTreeRoot publishedState,
                 pr_RootOfRoots = ps_RootOfRoots publishedState,
                 pr_State = ps_State publishedState,
                 pr_TxID = ps_TxID publishedState\<rparr>), None), \<sigma>')))"

subsection \<open>A concrete instance\<close>

text \<open>
  Packages and services to run the controllers on. The parser accepts the strings that
  start with \<open>did:\<close>, \<open>uuid.Parse\<close> those of 36 characters, \<open>MarshalText\<close> returns the
  bytes of the hash. The world is the number of service calls served so far. Each
  method of the example server fails with the error chosen for it by \<open>fails\<close>, if any,
  and succeeds with a fixed value otherwise; the revocation status it serves is a
  parameter.
\<close>

definition example_packages :: Packages where
  "example_packages =
     \<lparr>core_ParseDID =
        (\<lambda>raw. if take 4 raw = ''did:'' then Inr (DID raw)
               else Inl (New (OtherError 0) ''invalid did format'')),
      uuid_Parse =
        (\<lambda>raw. if length raw = 36 then Inr (UUID raw)
               else Inl (New (OtherError 1) ''invalid UUID length'')),
      ports_NewCreateClaimRequest =
        (\<lambda>did schema subject expiration typ version subjectPos merklizedRootPos.
           CreateClaimRequest (JObject [(''schema'', JString schema), (''subject'', subject),
                                        (''type'', JString typ)])),
      ports_NewClaimsFilter =
        (\<lambda>schemaHash schemaType subject queryField self revoked.
           case queryField of
             Some q \<Rightarrow> if q = [] then Inl (New (OtherError 2) ''invalid query field'')
                       else Inr (ClaimsFilter (JString q))
           | None \<Rightarrow> Inr (ClaimsFilter JNull)),
      ports_NewAgentRequest =
        (\<lambda>m. case m of
           BasicMessage JNull \<Rightarrow> Inl (New (OtherError 3) ''invalid message'')
         | BasicMessage j \<Rightarrow> Inr (AgentRequest j)),
      packers_MediaTypeZKPMessage = ''application/iden3-zkp-json'',
      Hash_MarshalText = (\<lambda>h. (h, None))\<rparr>"

definition example_identity :: Identity where
  "example_identity =
     \<lparr>idn_Identifier = ''did:polygonid:polygon:mumbai:2qE1'',
      idn_State =
        \<lparr>dis_BlockNumber = None, dis_BlockTimestamp = None, dis_ClaimsTreeRoot = Some ''c0'',
         dis_CreatedAt = 1, dis_ModifiedAt = 1, dis_PreviousState = None,
         dis_RevocationTreeRoot = None, dis_RootOfRoots = None, dis_State = Some ''s0'',
         dis_Status = ''confirmed'', dis_TxID = None\<rparr>\<rparr>"

definition example_claim :: Claim where
  "example_claim = \<lparr>cl_ID = UUID ''8b7e1f0a-0000-4000-8000-000000000001'', cl_fields = JNull\<rparr>"

definition example_credential :: "string \<Rightarrow> W3CCredential" where
  "example_credential i =
     \<lparr>w3c_ID = i, w3c_Context = [''https://www.w3.org/2018/credentials/v1''],
      w3c_Type = [''VerifiableCredential''], w3c_Expiration = None, w3c_IssuanceDate = Some 7,
      w3c_CredentialSubject = JObject [(''age'', JNumber 30)], w3c_CredentialStatus = JNull,
      w3c_Issuer = ''did:polygonid:polygon:mumbai:2qE1'',
      w3c_CredentialSchema = \<lparr>wcs_ID = ''https://example.org/schema.json'', wcs_Type = ''JsonSchema''\<rparr>,
      w3c_Proof = JArray []\<rparr>"

definition example_agent :: DomainAgent where
  "example_agent =
     \<lparr>da_Body = JObject [], da_From = ''did:issuer'', da_ID = ''m1'', da_ThreadID = ''t1'',
      da_To = ''did:holder'', da_Typ = ''application/iden3comm-plain-json'', da_Type = ''offer''\<rparr>"

definition example_published :: PublishedState where
  "example_published =
     \<lparr>ps_ClaimsTreeRoot = Some ''c1'', ps_RevocationTreeRoot = Some ''r1'',
      ps_RootOfRoots = Some ''o1'', ps_State = Some ''s1'', ps_TxID = Some ''0xabc''\<rparr>"

definition example_status :: "bool \<Rightarrow> NodeAux option \<Rightarrow> Hash list \<Rightarrow> RevocationStatus" where
  "example_status existence aux siblings =
     \<lparr>rs_Issuer = \<lparr>rsi_State = Some ''s1'', rsi_RootOfRoots = Some ''o1'',
                    rsi_ClaimsTreeRoot = Some ''c1'', rsi_RevocationTreeRoot = Some ''r1''\<rparr>,
      rs_MTP = \<lparr>mtp_Existence = existence, mtp_NodeAux = aux, mtp_AllSiblings = siblings\<rparr>\<rparr>"

definition answer :: "go_error option \<Rightarrow> 'a \<Rightarrow> nat \<Rightarrow> (go_error + 'a) \<times> nat" where
  "answer failure v w = (case failure of Some e \<Rightarrow> (Inl e, Suc w) | None \<Rightarrow> (Inr v, Suc w))"

definition example_server :: "(call \<Rightarrow> go_error option) \<Rightarrow> RevocationStatus \<Rightarrow> nat Server" where
  "example_server fails status =
     \<lparr>cfg = \<lparr>ServerUrl = ''http://localhost:3001''\<rparr>,
      identityService =
        \<lparr>identity_Create = (\<lambda>method blockchain network url.
           answer (fails IdentityService_Create) example_identity),
         identity_Get = answer (fails IdentityService_Get) [idn_Identifier example_identity]\<rparr>,
      claimService =
        \<lparr>claims_CreateClaim = (\<lambda>req. answer (fails ClaimsService_CreateClaim) example_claim),
         claims_Revoke = (\<lambda>identifier nonce description w. (fails ClaimsService_Revoke, Suc w)),
         claims_GetRevocationStatus = (\<lambda>identifier nonce.
           answer (fails ClaimsService_GetRevocationStatus) status),
         claims_GetByID = (\<lambda>did clID. answer (fails ClaimsService_GetByID) example_claim),
         claims_GetAll = (\<lambda>did f.
           answer (fails ClaimsService_GetAll) [example_credential ''a'', example_credential ''b'']),
         claims_Agent = (\<lambda>req. answer (fails ClaimsService_Agent) example_agent)\<rparr>,
      schemaService =
        \<lparr>schema_FromClaimModelToW3CCredential = (\<lambda>claim.
           answer (fails SchemaService_FromClaimModelToW3CCredential) (example_credential ''a''))\<rparr>,
      publisherGateway =
        \<lparr>publisher_PublishState = (\<lambda>did. answer (fails Publisher_PublishState) example_published)\<rparr>,
      packageManager =
        \<lparr>pm_UnpackWithType = (\<lambda>mediaType envelope.
           answer (fails PackageManager_UnpackWithType) (BasicMessage (JString ''fetch'')))\<rparr>\<rparr>"

definition no_failure :: "call \<Rightarrow> go_error option" where
  "no_failure c = None"

definition failing :: "call \<Rightarrow> go_error \<Rightarrow> call \<Rightarrow> go_error option" where
  "failing c e c' = (if c' = c then Some e else None)"

definition example_create_request :: "string \<Rightarrow> CreateClaimRequestObject" where
  "example_create_request identifier =
     \<lparr>cc_Identifier = identifier,
      cc_Body = \<lparr>ccb_CredentialSchema = ''https://example.org/schema.json'',
                 ccb_CredentialSubject = JObject [(''age'', JNumber 30)],
                 ccb_Expiration = None, ccb_Type = ''KYCAgeCredential'', ccb_Version = None,
                 ccb_SubjectPosition = None, ccb_MerklizedRootPosition = None\<rparr>\<rparr>"

subsection \<open>Outcomes\<close>

text \<open>
  A controller result is structured when it carries a response object and a nil error.
\<close>

definition structured :: "('r option \<times> go_error option) \<times> 'w sys \<Rightarrow> bool" where
  "structured res = (fst (fst res) \<noteq> None \<and> snd (fst res) = None)"

section \<open>Properties\<close>

subsection \<open>Auxiliary facts\<close>

lemma invoke_result:
  "m (fst \<sigma>) = (r, w') \<Longrightarrow> invoke c m \<sigma> = (r, (w', snd \<sigma> @ [c]))"
  by (simp add: invoke_def)

lemma invoke_calls: "snd (snd (invoke c m \<sigma>)) = snd \<sigma> @ [c]"
  by (simp add: invoke_def split: prod.splits)

lemma siblings_loop_append:
  "siblings_loop P hs acc = acc @ map (\<lambda>h. fst (Hash_MarshalText P h)) hs"
  by (induction hs arbitrary: acc) simp_all

lemma toGetClaims200Response_loop_eq:
  "length response = length claims \<Longrightarrow> i \<le> length claims \<Longrightarrow>
   toGetClaims200Response_loop i claims response =
     take i response @ map toGetClaim200Response (drop i claims)"
proof (induction i claims response rule: toGetClaims200Response_loop.induct)
  case (1 i claims response)
  show ?case
  proof (cases "i < length claims")
    case True
    let ?r = "response[i := toGetClaim200Response (claims ! i)]"
    have "toGetClaims200Response_loop i claims response =
          toGetClaims200Response_loop (Suc i) claims ?r"
      using True by (simp add: toGetClaims200Response_loop.simps [of i])
    also have "\<dots> = take (Suc i) ?r @ map toGetClaim200Response (drop (Suc i) claims)"
      using "1.IH" [OF True] True "1.prems" by simp
    also have "take (Suc i) ?r = take i response @ [toGetClaim200Response (claims ! i)]"
      using True "1.prems" by (simp add: take_Suc_conv_app_nth)
    also have "(take i response @ [toGetClaim200Response (claims ! i)]) @
                 map toGetClaim200Response (drop (Suc i) claims) =
               take i response @ map toGetClaim200Response (drop i claims)"
      using True by (simp add: Cons_nth_drop_Suc [symmetric])
    finally show ?thesis .
  next
    case False
    with "1.prems" show ?thesis
      by (subst toGetClaims200Response_loop.simps) simp
  qed
qed

lemma toGetClaims200Response_map:
  "toGetClaims200Response claims = map toGetClaim200Response claims"
  by (simp add: toGetClaims200Response_def Let_def toGetClaims200Response_loop_eq)

subsection \<open>Revoking a claim that does not exist\<close>

text \<open>
  C9. When the claims service answers a revocation with an error that is (or wraps) the
  sentinel \<open>ErrClaimDoesNotExist\<close>, \<open>RevokeClaim\<close> returns the 404 response whose message
  is exactly "the claim does not exist", with a nil error, after that one service call.
\<close>

theorem RevokeClaim_claim_does_not_exist:
  assumes "claims_Revoke (claimService s) (rv_Identifier request) (uint64 (rv_Nonce request)) ''''
             (fst \<sigma>) = (Some err, w')"
      and "errors_Is err ErrClaimDoesNotExist"
  shows "RevokeClaim s request \<sigma> =
           ((Some (RevokeClaim404JSONResponse (N404JSONResponse ''the claim does not exist'')), None),
            (w', snd \<sigma> @ [ClaimsService_Revoke]))"
  using assms by (simp add: RevokeClaim_def invoke_result)

theorem RevokeClaim_claim_does_not_exist_witness:
  "RevokeClaim
     (example_server
        (failing ClaimsService_Revoke
           (Wrap ''revoke failed: claim does not exist'' (New ErrClaimDoesNotExist ''claim does not exist'')))
        (example_status False None []))
     \<lparr>rv_Identifier = ''did:polygonid:polygon:mumbai:2qE1'', rv_Nonce = 42\<rparr> (0, []) =
   ((Some (RevokeClaim404JSONResponse (N404JSONResponse ''the claim does not exist'')), None),
    (Suc 0, [ClaimsService_Revoke]))"
  using RevokeClaim_claim_does_not_exist
    [of "example_server
           (failing ClaimsService_Revoke
              (Wrap ''revoke failed: claim does not exist''
                 (New ErrClaimDoesNotExist ''claim does not exist'')))
           (example_status False None [])"
        "\<lparr>rv_Identifier = ''did:polygonid:polygon:mumbai:2qE1'', rv_Nonce = 42\<rparr>"
        "(0, [])"
        "Wrap ''revoke failed: claim does not exist'' (New ErrClaimDoesNotExist ''claim does not exist'')"
        "Suc 0"]
  by (simp add: example_server_def failing_def)

subsection \<open>Shaping a list of credentials\<close>

text \<open>
  C8. For every list of credentials \<open>cs\<close>, \<open>toGetClaims200Response cs\<close> has the length of
  \<open>cs\<close>, and its element at each index \<open>i\<close> is \<open>toGetClaim200Response\<close> of \<open>cs[i]\<close>: the
  result is the list of the single shapings, in the order of the input, nothing dropped.
\<close>

theorem toGetClaims200Response_pointwise:
  "length (toGetClaims200Response cs) = length cs \<and>
   (\<forall>i < length cs. toGetClaims200Response cs ! i = toGetClaim200Response (cs ! i)) \<and>
   toGetClaims200Response cs = map toGetClaim200Response cs"
  by (simp add: toGetClaims200Response_map)

theorem toGetClaims200Response_pointwise_witness:
  "length (toGetClaims200Response
     [example_credential ''a'', example_credential ''b'', example_credential ''a'']) = 3 \<and>
   toGetClaims200Response
     [example_credential ''a'', example_credential ''b'', example_credential ''a''] ! 1 =
   toGetClaim200Response (example_credential ''b'') \<and>
   toGetClaims200Response
     [example_credential ''a'', example_credential ''b'', example_credential ''a''] ! 2 =
   toGetClaim200Response (example_credential ''a'')"
  using toGetClaims200Response_pointwise
    [of "[example_credential ''a'', example_credential ''b'', example_credential ''a'']"]
  by (simp add: nth_Cons')

subsection \<open>Assembling the revocation status\<close>

lemma assemble_response_Mtp:
  "rr_Mtp (assemble_response P rs) =
     \<lparr>rm_Existence = mtp_Existence (rs_MTP rs),
      rm_NodeAux =
        (case mtp_NodeAux (rs_MTP rs) of
           None \<Rightarrow> None
         | Some aux \<Rightarrow>
             Some \<lparr>rn_Key = Some (fst (Hash_MarshalText P (aux_Key aux))),
                   rn_Value = Some (fst (Hash_MarshalText P (aux_Value aux)))\<rparr>),
      rm_Siblings = Some (map (\<lambda>h. fst (Hash_MarshalText P h)) (mtp_AllSiblings (rs_MTP rs)))\<rparr>"
  by (simp add: assemble_response_def RevocationStatusResponse_zero_def Let_def
        siblings_loop_append split: option.splits)

lemma GetRevocationStatus_success:
  assumes "claims_GetRevocationStatus (claimService s) (grs_Identifier request)
             (uint64 (grs_Nonce request)) (fst \<sigma>) = (Inr rs, w')"
  shows "GetRevocationStatus P s request \<sigma> =
           ((Some (GetRevocationStatus200JSONResponse (assemble_response P rs)), None),
            (w', snd \<sigma> @ [ClaimsService_GetRevocationStatus]))"
  using assms by (simp add: GetRevocationStatus_def invoke_result)

text \<open>
  C4. When the claims service returns a revocation status, the response is the 200
  response, its sibling sequence is present, has the length of the proof's sibling list
  (the result of \<open>AllSiblings()\<close>), and its element at each position \<open>i\<close> is the
  \<open>MarshalText\<close> encoding of the proof's sibling at position \<open>i\<close>: nothing is reordered,
  dropped or merged.
\<close>

theorem GetRevocationStatus_siblings:
  assumes "claims_GetRevocationStatus (claimService s) (grs_Identifier request)
             (uint64 (grs_Nonce request)) (fst \<sigma>) = (Inr rs, w')"
  shows "fst (GetRevocationStatus P s request \<sigma>) =
           (Some (GetRevocationStatus200JSONResponse (assemble_response P rs)), None) \<and>
         (\<exists>siblings.
            rm_Siblings (rr_Mtp (assemble_response P rs)) = Some siblings \<and>
            length siblings = length (mtp_AllSiblings (rs_MTP rs)) \<and>
            (\<forall>i < length siblings.
               siblings ! i = fst (Hash_MarshalText P (mtp_AllSiblings (rs_MTP rs) ! i))))"
  using GetRevocationStatus_success [OF assms, of P]
  by (simp add: assemble_response_Mtp)

theorem GetRevocationStatus_siblings_witness:
  "fst (GetRevocationStatus example_packages
          (example_server no_failure (example_status False None [[1, 2], [0], [1, 2], [3]]))
          \<lparr>grs_Identifier = ''did:polygonid:polygon:mumbai:2qE1'', grs_Nonce = 7\<rparr> (0, [])) =
     (Some (GetRevocationStatus200JSONResponse
        (assemble_response example_packages
           (example_status False None [[1, 2], [0], [1, 2], [3]]))), None) \<and>
   rm_Siblings (rr_Mtp (assemble_response example_packages
     (example_status False None [[1, 2], [0], [1, 2], [3]]))) = Some [[1, 2], [0], [1, 2], [3]]"
proof -
  have call: "claims_GetRevocationStatus
      (claimService (example_server no_failure (example_status False None [[1, 2], [0], [1, 2], [3]])))
      (grs_Identifier \<lparr>grs_Identifier = ''did:polygonid:polygon:mumbai:2qE1'', grs_Nonce = 7\<rparr>)
      (uint64 (grs_Nonce \<lparr>grs_Identifier = ''did:polygonid:polygon:mumbai:2qE1'', grs_Nonce = 7\<rparr>))
      (fst (0, [])) = (Inr (example_status False None [[1, 2], [0], [1, 2], [3]]), Suc 0)"
    by (simp add: example_server_def no_failure_def answer_def)
  from GetRevocationStatus_siblings [OF call, of example_packages]
  obtain siblings where
    r: "fst (GetRevocationStatus example_packages
          (example_server no_failure (example_status False None [[1, 2], [0], [1, 2], [3]]))
          \<lparr>grs_Identifier = ''did:polygonid:polygon:mumbai:2qE1'', grs_Nonce = 7\<rparr> (0, [])) =
        (Some (GetRevocationStatus200JSONResponse
           (assemble_response example_packages
              (example_status False None [[1, 2], [0], [1, 2], [3]]))), None)"
    and s: "rm_Siblings (rr_Mtp (assemble_response example_packages
              (example_status False None [[1, 2], [0], [1, 2], [3]]))) = Some siblings"
    and l: "length siblings =
              length (mtp_AllSiblings (rs_MTP (example_status False None [[1, 2], [0], [1, 2], [3]])))"
    and n: "\<forall>i < length siblings.
              siblings ! i = fst (Hash_MarshalText example_packages
                (mtp_AllSiblings (rs_MTP (example_status False None [[1, 2], [0], [1, 2], [3]])) ! i))"
    by blast
  have "siblings = [[1, 2], [0], [1, 2], [3]]"
    using l n by (simp add: list_eq_iff_nth_eq example_status_def example_packages_def)
  with r s show ?thesis by simp
qed

text \<open>
  C3, as the claim states it, fails: a proof that reports existence and still carries an
  auxiliary node gets the auxiliary node in its response.
\<close>

theorem GetRevocationStatus_aux_with_existence_counterexample:
  "fst (GetRevocationStatus example_packages
          (example_server no_failure
             (example_status True (Some \<lparr>aux_Key = [5], aux_Value = [6]\<rparr>) []))
          \<lparr>grs_Identifier = ''did:polygonid:polygon:mumbai:2qE1'', grs_Nonce = 7\<rparr> (0, [])) =
     (Some (GetRevocationStatus200JSONResponse
        \<lparr>rr_Issuer = \<lparr>ri_ClaimsTreeRoot = Some ''c1'', ri_RevocationTreeRoot = Some ''r1'',
                       ri_RootOfRoots = Some ''o1'', ri_State = Some ''s1''\<rparr>,
         rr_Mtp = \<lparr>rm_Existence = True,
                    rm_NodeAux = Some \<lparr>rn_Key = Some [5], rn_Value = Some [6]\<rparr>,
                    rm_Siblings = Some []\<rparr>\<rparr>), None)"
  by (simp add: GetRevocationStatus_def invoke_def example_server_def no_failure_def answer_def
        example_status_def example_packages_def assemble_response_def
        RevocationStatusResponse_zero_def)

text \<open>
  C3, amended. When the claims service returns a revocation status, the auxiliary-node
  field of the 200 response is present if and only if the raw proof carries an auxiliary
  node, whatever its existence flag says; when present, its key and value are the
  \<open>MarshalText\<close> encodings of the raw auxiliary node's key and value, and when the raw
  proof has none the field is absent.
\<close>

theorem GetRevocationStatus_NodeAux:
  assumes "claims_GetRevocationStatus (claimService s) (grs_Identifier request)
             (uint64 (grs_Nonce request)) (fst \<sigma>) = (Inr rs, w')"
  shows "fst (GetRevocationStatus P s request \<sigma>) =
           (Some (GetRevocationStatus200JSONResponse (assemble_response P rs)), None) \<and>
         (rm_NodeAux (rr_Mtp (assemble_response P rs)) \<noteq> None \<longleftrightarrow>
            mtp_NodeAux (rs_MTP rs) \<noteq> None) \<and>
         (\<forall>aux. mtp_NodeAux (rs_MTP rs) = Some aux \<longrightarrow>
            rm_NodeAux (rr_Mtp (assemble_response P rs)) =
              Some \<lparr>rn_Key = Some (fst (Hash_MarshalText P (aux_Key aux))),
                    rn_Value = Some (fst (Hash_MarshalText P (aux_Value aux)))\<rparr>) \<and>
         (mtp_NodeAux (rs_MTP rs) = None \<longrightarrow>
            rm_NodeAux (rr_Mtp (assemble_response P rs)) = None)"
  using GetRevocationStatus_success [OF assms, of P]
  by (auto simp add: assemble_response_Mtp split: option.splits)

theorem GetRevocationStatus_NodeAux_witness:
  "fst (GetRevocationStatus example_packages
          (example_server no_failure
             (example_status False (Some \<lparr>aux_Key = [5], aux_Value = [6]\<rparr>) [[1]]))
          \<lparr>grs_Identifier = ''did:polygonid:polygon:mumbai:2qE1'', grs_Nonce = 7\<rparr> (0, [])) =
     (Some (GetRevocationStatus200JSONResponse
        (assemble_response example_packages
           (example_status False (Some \<lparr>aux_Key = [5], aux_Value = [6]\<rparr>) [[1]]))), None) \<and>
   rm_NodeAux (rr_Mtp (assemble_response example_packages
     (example_status False (Some \<lparr>aux_Key = [5], aux_Value = [6]\<rparr>) [[1]]))) =
     Some \<lparr>rn_Key = Some [5], rn_Value = Some [6]\<rparr> \<and>
   rm_NodeAux (rr_Mtp (assemble_response example_packages
     (example_status False None [[1]]))) = None"
  using GetRevocationStatus_NodeAux
    [of "example_server no_failure
           (example_status False (Some \<lparr>aux_Key = [5], aux_Value = [6]\<rparr>) [[1]])"
        "\<lparr>grs_Identifier = ''did:polygonid:polygon:mumbai:2qE1'', grs_Nonce = 7\<rparr>"
        "(0, [])" "example_status False (Some \<lparr>aux_Key = [5], aux_Value = [6]\<rparr>) [[1]]"
        "Suc 0" example_packages]
    GetRevocationStatus_NodeAux
    [of "example_server no_failure (example_status False None [[1]])"
        "\<lparr>grs_Identifier = ''did:polygonid:polygon:mumbai:2qE1'', grs_Nonce = 7\<rparr>"
        "(0, [])" "example_status False None [[1]]" "Suc 0" example_packages]
  by (simp add: example_server_def no_failure_def answer_def example_status_def
        example_packages_def)

subsection \<open>Issuing a claim\<close>

lemma CreateClaim_failure:
  assumes "core_ParseDID P (cc_Identifier request) = Inr did"
      and "claims_CreateClaim (claimService s)
             (ports_NewCreateClaimRequest P did
                (ccb_CredentialSchema (cc_Body request)) (ccb_CredentialSubject (cc_Body request))
                (ccb_Expiration (cc_Body request)) (ccb_Type (cc_Body request))
                (ccb_Version (cc_Body request)) (ccb_SubjectPosition (cc_Body request))
                (ccb_MerklizedRootPosition (cc_Body request)))
             (fst \<sigma>) = (Inl err, w')"
  shows "fst (CreateClaim P s request \<sigma>) =
           (Some (if errors_Is err ErrJSONLdContext then
                    CreateClaim400JSONResponse (N400JSONResponse (Error err))
                  else if errors_Is err ErrProcessSchema then
                    CreateClaim400JSONResponse (N400JSONResponse (Error err))
                  else if errors_Is err ErrLoadingSchema then
                    CreateClaim422JSONResponse (N422JSONResponse (Error err))
                  else if errors_Is err ErrMalformedURL then
                    CreateClaim400JSONResponse (N400JSONResponse (Error err))
                  else CreateClaim500JSONResponse (N500JSONResponse (Error err))), None)"
  using assms by (simp add: CreateClaim_def Let_def invoke_result)







subsection \<open>Publishing the state of an identity\<close>

lemma PublishIdentityState_failure:
  assumes "core_ParseDID P (pis_Identifier request) = Inr did"
      and "publisher_PublishState (publisherGateway s) did (fst \<sigma>) = (Inl err, w')"
  shows "fst (PublishIdentityState P s request \<sigma>) =
           (Some (if errors_Is err ErrNoStatesToProcess \<or> errors_Is err ErrStateIsBeingProcessed
                  then PublishIdentityState200JSONResponse (Error err)
                  else PublishIdentityState500JSONResponse (N500JSONResponse (Error err))), None)"
  using assms by (simp add: PublishIdentityState_def invoke_result)

text \<open>
  C5. For a request whose identifier parses, when the publisher fails with \<open>err\<close>: if
  \<open>err\<close> is the sentinel "no states to process" or the sentinel "state is being
  processed", the controller returns the 200 acknowledgment carrying the message of
  \<open>err\<close>, with a nil error; every other error yields the 500 response with the message
  of \<open>err\<close>.
\<close>

theorem PublishIdentityState_error_mapping:
  assumes "core_ParseDID P (pis_Identifier request) = Inr did"
      and "publisher_PublishState (publisherGateway s) did (fst \<sigma>) = (Inl err, w')"
  shows "(errors_Is err ErrNoStatesToProcess \<or> errors_Is err ErrStateIsBeingProcessed \<longrightarrow>
            fst (PublishIdentityState P s request \<sigma>) =
              (Some (PublishIdentityState200JSONResponse (Error err)), None)) \<and>
         (\<not> errors_Is err ErrNoStatesToProcess \<and> \<not> errors_Is err ErrStateIsBeingProcessed \<longrightarrow>
            fst (PublishIdentityState P s request \<sigma>) =
              (Some (PublishIdentityState500JSONResponse (N500JSONResponse (Error err))), None))"
  by (simp add: PublishIdentityState_failure [OF assms])

lemma example_publish_call:
  "publisher_PublishState
     (publisherGateway (example_server (failing Publisher_PublishState e) st))
     (DID ''did:iden3:x'') (fst (0, [])) = (Inl e, Suc 0)"
  by (simp add: example_server_def failing_def answer_def)

lemma example_publish_parse:
  "core_ParseDID example_packages (pis_Identifier \<lparr>pis_Identifier = ''did:iden3:x''\<rparr>) =
     Inr (DID ''did:iden3:x'')"
  by (simp add: example_packages_def)

theorem PublishIdentityState_error_mapping_witness:
  "fst (PublishIdentityState example_packages
          (example_server (failing Publisher_PublishState
             (New ErrNoStatesToProcess ''no states to process'')) (example_status False None []))
          \<lparr>pis_Identifier = ''did:iden3:x''\<rparr> (0, [])) =
     (Some (PublishIdentityState200JSONResponse ''no states to process''), None) \<and>
   fst (PublishIdentityState example_packages
          (example_server (failing Publisher_PublishState
             (Wrap ''publish: busy'' (New ErrStateIsBeingProcessed ''state is being processed'')))
             (example_status False None []))
          \<lparr>pis_Identifier = ''did:iden3:x''\<rparr> (0, [])) =
     (Some (PublishIdentityState200JSONResponse ''publish: busy''), None) \<and>
   fst (PublishIdentityState example_packages
          (example_server (failing Publisher_PublishState
             (New (OtherError 4) ''rpc timeout'')) (example_status False None []))
          \<lparr>pis_Identifier = ''did:iden3:x''\<rparr> (0, [])) =
     (Some (PublishIdentityState500JSONResponse (N500JSONResponse ''rpc timeout'')), None)"
  using
    PublishIdentityState_error_mapping [OF example_publish_parse example_publish_call,
      of "New ErrNoStatesToProcess ''no states to process''" "example_status False None []"]
    PublishIdentityState_error_mapping [OF example_publish_parse example_publish_call,
      of "Wrap ''publish: busy'' (New ErrStateIsBeingProcessed ''state is being processed'')"
         "example_status False None []"]
    PublishIdentityState_error_mapping [OF example_publish_parse example_publish_call,
      of "New (OtherError 4) ''rpc timeout''" "example_status False None []"]
  by simp

subsection \<open>Every controller but one answers with a response object\<close>

lemma structured_CreateClaim: "structured (CreateClaim P s request \<sigma>)"
  by (simp add: structured_def CreateClaim_def Let_def split: sum.splits prod.splits)

lemma structured_RevokeClaim: "structured (RevokeClaim s request \<sigma>)"
  by (simp add: structured_def RevokeClaim_def split: option.splits prod.splits)

lemma structured_GetRevocationStatus: "structured (GetRevocationStatus P s request \<sigma>)"
  by (simp add: structured_def GetRevocationStatus_def split: sum.splits prod.splits)

lemma structured_GetClaim: "structured (GetClaim P s request \<sigma>)"
  by (simp add: structured_def GetClaim_def split: sum.splits prod.splits)

lemma structured_GetClaims: "structured (GetClaims P s request \<sigma>)"
  by (simp add: structured_def GetClaims_def split: sum.splits prod.splits)

lemma structured_GetIdentities: "structured (GetIdentities s \<sigma>)"
  by (simp add: structured_def GetIdentities_def split: sum.splits prod.splits)

lemma structured_Agent: "structured (Agent P s request \<sigma>)"
  by (simp add: structured_def Agent_def split: sum.splits prod.splits option.splits)

lemma structured_PublishIdentityState: "structured (PublishIdentityState P s request \<sigma>)"
  by (simp add: structured_def PublishIdentityState_def split: sum.splits prod.splits)

lemma CreateIdentity_failure:
  assumes "identity_Create (identityService s)
             (dm_Method (cib_DidMetadata (cir_Body request)))
             (dm_Blockchain (cib_DidMetadata (cir_Body request)))
             (dm_Network (cib_DidMetadata (cir_Body request)))
             (ServerUrl (cfg s)) (fst \<sigma>) = (Inl err, w')"
  shows "CreateIdentity s request \<sigma> =
           (if errors_Is err ErrWrongDIDMetada
            then (Some (CreateIdentity400JSONResponse (N400JSONResponse (Error err))), None)
            else (None, Some err),
            (w', snd \<sigma> @ [IdentityService_Create]))"
  using assms by (simp add: CreateIdentity_def Let_def invoke_result)

text \<open>
  C10. When the identity service fails with an error that is not the wrong-DID-metadata
  sentinel, \<open>CreateIdentity\<close> returns a nil response object together with that very
  error. Every other controller that calls a service (\<open>CreateClaim\<close>, \<open>RevokeClaim\<close>,
  \<open>GetRevocationStatus\<close>, \<open>GetClaim\<close>, \<open>GetClaims\<close>, \<open>GetIdentities\<close>, \<open>Agent\<close>,
  \<open>PublishIdentityState\<close>) returns, on every input and so also when a service fails, a
  response object and a nil error.
\<close>

theorem CreateIdentity_propagates_raw_error:
  "(identity_Create (identityService s)
      (dm_Method (cib_DidMetadata (cir_Body cireq)))
      (dm_Blockchain (cib_DidMetadata (cir_Body cireq)))
      (dm_Network (cib_DidMetadata (cir_Body cireq)))
      (ServerUrl (cfg s)) (fst \<sigma>) = (Inl err, w') \<and>
    \<not> errors_Is err ErrWrongDIDMetada \<longrightarrow>
      fst (CreateIdentity s cireq \<sigma>) = (None, Some err) \<and>
      \<not> structured (CreateIdentity s cireq \<sigma>)) \<and>
   structured (CreateClaim P s ccreq \<sigma>) \<and>
   structured (RevokeClaim s rvreq \<sigma>) \<and>
   structured (GetRevocationStatus P s grsreq \<sigma>) \<and>
   structured (GetClaim P s gcreq \<sigma>) \<and>
   structured (GetClaims P s gcsreq \<sigma>) \<and>
   structured (GetIdentities s \<sigma>) \<and>
   structured (Agent P s agreq \<sigma>) \<and>
   structured (PublishIdentityState P s pisreq \<sigma>)"
  by (intro conjI impI structured_CreateClaim structured_RevokeClaim
        structured_GetRevocationStatus structured_GetClaim structured_GetClaims
        structured_GetIdentities structured_Agent structured_PublishIdentityState)
     (simp_all add: CreateIdentity_failure structured_def)

theorem CreateIdentity_propagates_raw_error_witness:
  "fst (CreateIdentity
          (example_server (failing IdentityService_Create (New (OtherError 5) ''database unavailable''))
             (example_status False None []))
          \<lparr>cir_Body = \<lparr>cib_DidMetadata =
             \<lparr>dm_Method = ''polygonid'', dm_Blockchain = ''polygon'', dm_Network = ''mumbai''\<rparr>\<rparr>\<rparr>
          (0, [])) =
     (None, Some (New (OtherError 5) ''database unavailable'')) \<and>
   structured (RevokeClaim
          (example_server (failing IdentityService_Create (New (OtherError 5) ''database unavailable''))
             (example_status False None []))
          \<lparr>rv_Identifier = ''did:iden3:x'', rv_Nonce = 3\<rparr> (0, []))"
  using CreateIdentity_propagates_raw_error
    [of "example_server (failing IdentityService_Create (New (OtherError 5) ''database unavailable''))
           (example_status False None [])"
        "\<lparr>cir_Body = \<lparr>cib_DidMetadata =
           \<lparr>dm_Method = ''polygonid'', dm_Blockchain = ''polygon'', dm_Network = ''mumbai''\<rparr>\<rparr>\<rparr>"
        "(0, [])" "New (OtherError 5) ''database unavailable''" "Suc 0"
        _ _ "\<lparr>rv_Identifier = ''did:iden3:x'', rv_Nonce = 3\<rparr>"]
  by (simp add: example_server_def failing_def answer_def)

subsection \<open>The agent endpoint and empty bodies\<close>




subsection \<open>Malformed identifiers\<close>

text \<open>
  C1, as the claim states it, fails: \<open>RevokeClaim\<close> and \<open>GetRevocationStatus\<close> do not
  parse the identifier. With the empty identifier, which the parser rejects, both call the
  claims service and answer what it decides: here 202 and 200.
\<close>

theorem RevokeClaim_unparsed_identifier_counterexample:
  "core_ParseDID example_packages '''' = Inl (New (OtherError 0) ''invalid did format'') \<and>
   RevokeClaim (example_server no_failure (example_status False None []))
     \<lparr>rv_Identifier = '''', rv_Nonce = 1\<rparr> (0, []) =
     ((Some (RevokeClaim202JSONResponse ''claim revocation request sent''), None),
      (Suc 0, [ClaimsService_Revoke])) \<and>
   GetRevocationStatus example_packages (example_server no_failure (example_status False None []))
     \<lparr>grs_Identifier = '''', grs_Nonce = 1\<rparr> (0, []) =
     ((Some (GetRevocationStatus200JSONResponse
        (assemble_response example_packages (example_status False None []))), None),
      (Suc 0, [ClaimsService_GetRevocationStatus]))"
  by (simp add: RevokeClaim_def GetRevocationStatus_def invoke_def example_server_def
        no_failure_def answer_def example_packages_def)

text \<open>
  C1, amended. For every identifier string that the DID parser rejects, \<open>CreateClaim\<close>
  and \<open>PublishIdentityState\<close> return a 400 response and invoke no service; for every
  identifier string that is empty or that the parser rejects, \<open>GetClaim\<close> and \<open>GetClaims\<close>
  return a 400 response and invoke no service (the state and the list of calls are
  unchanged). \<open>RevokeClaim\<close> and \<open>GetRevocationStatus\<close> do not validate the identifier:
  whatever it is, they hand the string of the request, unparsed, to the claims service,
  calling it exactly once, and their outcome is the one the answer of the service
  dictates. \<open>RevokeClaim\<close> answers 202 when the service succeeds, 404 when its error
  matches the claim-does-not-exist sentinel and 500 with the message of the error
  otherwise; \<open>GetRevocationStatus\<close> answers 200 with the assembled status when the service
  succeeds and 500 with the message of the error otherwise.
\<close>

theorem malformed_identifier_rejected_where_parsed:
  "(core_ParseDID P (cc_Identifier ccreq) = Inl e \<longrightarrow>
      CreateClaim P s ccreq \<sigma> =
        ((Some (CreateClaim400JSONResponse (N400JSONResponse (Error e))), None), \<sigma>)) \<and>
   (isl (core_ParseDID P (pis_Identifier pisreq)) \<longrightarrow>
      PublishIdentityState P s pisreq \<sigma> =
        ((Some (PublishIdentityState400JSONResponse (N400JSONResponse ''invalid did'')), None), \<sigma>)) \<and>
   (gc_Identifier gcreq = '''' \<or> isl (core_ParseDID P (gc_Identifier gcreq)) \<longrightarrow>
      GetClaim P s gcreq \<sigma> =
        ((Some (GetClaim400JSONResponse (N400JSONResponse
           (if gc_Identifier gcreq = '''' then ''invalid did, can not be empty''
            else ''invalid did''))), None), \<sigma>)) \<and>
   (gcs_Identifier gcsreq = '''' \<or> isl (core_ParseDID P (gcs_Identifier gcsreq)) \<longrightarrow>
      GetClaims P s gcsreq \<sigma> =
        ((Some (GetClaims400JSONResponse (N400JSONResponse
           (if gcs_Identifier gcsreq = '''' then ''invalid did, can not be empty''
            else ''invalid did''))), None), \<sigma>)) \<and>
   snd (snd (RevokeClaim s rvreq \<sigma>)) = snd \<sigma> @ [ClaimsService_Revoke] \<and>
   snd (snd (GetRevocationStatus P s grsreq \<sigma>)) = snd \<sigma> @ [ClaimsService_GetRevocationStatus] \<and>
   (claims_Revoke (claimService s) (rv_Identifier rvreq) (uint64 (rv_Nonce rvreq)) ''''
      (fst \<sigma>) = (None, w') \<longrightarrow>
      RevokeClaim s rvreq \<sigma> =
        ((Some (RevokeClaim202JSONResponse ''claim revocation request sent''), None),
         (w', snd \<sigma> @ [ClaimsService_Revoke]))) \<and>
   (claims_Revoke (claimService s) (rv_Identifier rvreq) (uint64 (rv_Nonce rvreq)) ''''
      (fst \<sigma>) = (Some err, w') \<longrightarrow>
      RevokeClaim s rvreq \<sigma> =
        ((Some (if errors_Is err ErrClaimDoesNotExist
                then RevokeClaim404JSONResponse (N404JSONResponse ''the claim does not exist'')
                else RevokeClaim500JSONResponse (N500JSONResponse (Error err))), None),
         (w', snd \<sigma> @ [ClaimsService_Revoke]))) \<and>
   (claims_GetRevocationStatus (claimService s) (grs_Identifier grsreq)
      (uint64 (grs_Nonce grsreq)) (fst \<sigma>) = (Inr rs, w') \<longrightarrow>
      GetRevocationStatus P s grsreq \<sigma> =
        ((Some (GetRevocationStatus200JSONResponse (assemble_response P rs)), None),
         (w', snd \<sigma> @ [ClaimsService_GetRevocationStatus]))) \<and>
   (claims_GetRevocationStatus (claimService s) (grs_Identifier grsreq)
      (uint64 (grs_Nonce grsreq)) (fst \<sigma>) = (Inl err, w') \<longrightarrow>
      GetRevocationStatus P s grsreq \<sigma> =
        ((Some (GetRevocationStatus500JSONResponse (N500JSONResponse (Error err))), None),
         (w', snd \<sigma> @ [ClaimsService_GetRevocationStatus])))"
proof (intro conjI impI)
  assume "core_ParseDID P (cc_Identifier ccreq) = Inl e"
  then show "CreateClaim P s ccreq \<sigma> =
      ((Some (CreateClaim400JSONResponse (N400JSONResponse (Error e))), None), \<sigma>)"
    by (simp add: CreateClaim_def)
next
  assume "isl (core_ParseDID P (pis_Identifier pisreq))"
  then show "PublishIdentityState P s pisreq \<sigma> =
      ((Some (PublishIdentityState400JSONResponse (N400JSONResponse ''invalid did'')), None), \<sigma>)"
    by (auto simp add: PublishIdentityState_def isl_def)
next
  assume "gc_Identifier gcreq = '''' \<or> isl (core_ParseDID P (gc_Identifier gcreq))"
  then show "GetClaim P s gcreq \<sigma> =
      ((Some (GetClaim400JSONResponse (N400JSONResponse
         (if gc_Identifier gcreq = '''' then ''invalid did, can not be empty''
          else ''invalid did''))), None), \<sigma>)"
    by (auto simp add: GetClaim_def isl_def)
next
  assume "gcs_Identifier gcsreq = '''' \<or> isl (core_ParseDID P (gcs_Identifier gcsreq))"
  then show "GetClaims P s gcsreq \<sigma> =
      ((Some (GetClaims400JSONResponse (N400JSONResponse
         (if gcs_Identifier gcsreq = '''' then ''invalid did, can not be empty''
          else ''invalid did''))), None), \<sigma>)"
    by (auto simp add: GetClaims_def isl_def)
next
  show "snd (snd (RevokeClaim s rvreq \<sigma>)) = snd \<sigma> @ [ClaimsService_Revoke]"
    by (simp add: RevokeClaim_def invoke_def split: prod.splits option.splits)
next
  show "snd (snd (GetRevocationStatus P s grsreq \<sigma>)) =
      snd \<sigma> @ [ClaimsService_GetRevocationStatus]"
    by (simp add: GetRevocationStatus_def invoke_def split: prod.splits sum.splits)
next
  assume "claims_Revoke (claimService s) (rv_Identifier rvreq) (uint64 (rv_Nonce rvreq)) ''''
      (fst \<sigma>) = (None, w')"
  then show "RevokeClaim s rvreq \<sigma> =
      ((Some (RevokeClaim202JSONResponse ''claim revocation request sent''), None),
       (w', snd \<sigma> @ [ClaimsService_Revoke]))"
    by (simp add: RevokeClaim_def invoke_result)
next
  assume "claims_Revoke (claimService s) (rv_Identifier rvreq) (uint64 (rv_Nonce rvreq)) ''''
      (fst \<sigma>) = (Some err, w')"
  then show "RevokeClaim s rvreq \<sigma> =
      ((Some (if errors_Is err ErrClaimDoesNotExist
              then RevokeClaim404JSONResponse (N404JSONResponse ''the claim does not exist'')
              else RevokeClaim500JSONResponse (N500JSONResponse (Error err))), None),
       (w', snd \<sigma> @ [ClaimsService_Revoke]))"
    by (simp add: RevokeClaim_def invoke_result)
next
  assume "claims_GetRevocationStatus (claimService s) (grs_Identifier grsreq)
      (uint64 (grs_Nonce grsreq)) (fst \<sigma>) = (Inr rs, w')"
  then show "GetRevocationStatus P s grsreq \<sigma> =
      ((Some (GetRevocationStatus200JSONResponse (assemble_response P rs)), None),
       (w', snd \<sigma> @ [ClaimsService_GetRevocationStatus]))"
    by (simp add: GetRevocationStatus_def invoke_result)
next
  assume "claims_GetRevocationStatus (claimService s) (grs_Identifier grsreq)
      (uint64 (grs_Nonce grsreq)) (fst \<sigma>) = (Inl err, w')"
  then show "GetRevocationStatus P s grsreq \<sigma> =
      ((Some (GetRevocationStatus500JSONResponse (N500JSONResponse (Error err))), None),
       (w', snd \<sigma> @ [ClaimsService_GetRevocationStatus]))"
    by (simp add: GetRevocationStatus_def invoke_result)
qed

theorem malformed_identifier_rejected_where_parsed_witness:
  "CreateClaim example_packages (example_server no_failure (example_status False None []))
     (example_create_request ''not-a-did'') (0, []) =
     ((Some (CreateClaim400JSONResponse (N400JSONResponse ''invalid did format'')), None), (0, [])) \<and>
   PublishIdentityState example_packages (example_server no_failure (example_status False None []))
     \<lparr>pis_Identifier = ''not-a-did''\<rparr> (0, []) =
     ((Some (PublishIdentityState400JSONResponse (N400JSONResponse ''invalid did'')), None), (0, [])) \<and>
   GetClaim example_packages (example_server no_failure (example_status False None []))
     \<lparr>gc_Identifier = '''', gc_Id = ''8b7e1f0a-0000-4000-8000-000000000001''\<rparr> (0, []) =
     ((Some (GetClaim400JSONResponse (N400JSONResponse ''invalid did, can not be empty'')), None),
      (0, [])) \<and>
   GetClaims example_packages (example_server no_failure (example_status False None []))
     \<lparr>gcs_Identifier = ''not-a-did'',
      gcs_Params = \<lparr>gp_SchemaHash = None, gp_SchemaType = None, gp_Subject = None,
                    gp_QueryField = None, gp_Self = None, gp_Revoked = None\<rparr>\<rparr> (0, []) =
     ((Some (GetClaims400JSONResponse (N400JSONResponse ''invalid did'')), None), (0, [])) \<and>
   RevokeClaim (example_server no_failure (example_status False None []))
     \<lparr>rv_Identifier = ''not-a-did'', rv_Nonce = 1\<rparr> (0, []) =
     ((Some (RevokeClaim202JSONResponse ''claim revocation request sent''), None),
      (Suc 0, [ClaimsService_Revoke])) \<and>
   RevokeClaim
     (example_server (failing ClaimsService_Revoke (New (OtherError 0) ''invalid did format''))
        (example_status False None []))
     \<lparr>rv_Identifier = ''not-a-did'', rv_Nonce = 1\<rparr> (0, []) =
     ((Some (RevokeClaim500JSONResponse (N500JSONResponse ''invalid did format'')), None),
      (Suc 0, [ClaimsService_Revoke])) \<and>
   GetRevocationStatus example_packages (example_server no_failure (example_status False None []))
     \<lparr>grs_Identifier = ''not-a-did'', grs_Nonce = 1\<rparr> (0, []) =
     ((Some (GetRevocationStatus200JSONResponse
        (assemble_response example_packages (example_status False None []))), None),
      (Suc 0, [ClaimsService_GetRevocationStatus])) \<and>
   GetRevocationStatus example_packages
     (example_server
        (failing ClaimsService_GetRevocationStatus (New (OtherError 0) ''invalid did format''))
        (example_status False None []))
     \<lparr>grs_Identifier = ''not-a-did'', grs_Nonce = 1\<rparr> (0, []) =
     ((Some (GetRevocationStatus500JSONResponse (N500JSONResponse ''invalid did format'')), None),
      (Suc 0, [ClaimsService_GetRevocationStatus]))"
proof -
  note at_example = malformed_identifier_rejected_where_parsed
    [where P = example_packages and \<sigma> = "(0, [])"
       and ccreq = "example_create_request ''not-a-did''"
       and e = "New (OtherError 0) ''invalid did format''"
       and pisreq = "\<lparr>pis_Identifier = ''not-a-did''\<rparr>"
       and gcreq = "\<lparr>gc_Identifier = '''', gc_Id = ''8b7e1f0a-0000-4000-8000-000000000001''\<rparr>"
       and gcsreq = "\<lparr>gcs_Identifier = ''not-a-did'',
                       gcs_Params = \<lparr>gp_SchemaHash = None, gp_SchemaType = None, gp_Subject = None,
                                     gp_QueryField = None, gp_Self = None, gp_Revoked = None\<rparr>\<rparr>"
       and rvreq = "\<lparr>rv_Identifier = ''not-a-did'', rv_Nonce = 1\<rparr>"
       and grsreq = "\<lparr>grs_Identifier = ''not-a-did'', grs_Nonce = 1\<rparr>"
       and w' = "Suc 0"
       and err = "New (OtherError 0) ''invalid did format''"
       and rs = "example_status False None []"]
  show ?thesis
    using at_example [where s = "example_server no_failure (example_status False None [])"]
      at_example [where s = "example_server
        (failing ClaimsService_Revoke (New (OtherError 0) ''invalid did format''))
        (example_status False None [])"]
      at_example [where s = "example_server
        (failing ClaimsService_GetRevocationStatus (New (OtherError 0) ''invalid did format''))
        (example_status False None [])"]
    by (simp add: example_server_def no_failure_def failing_def answer_def
          example_packages_def example_create_request_def)
qed

subsection \<open>Errors outside the recognised sentinels\<close>

lemma RevokeClaim_failure:
  assumes "claims_Revoke (claimService s) (rv_Identifier request) (uint64 (rv_Nonce request)) ''''
             (fst \<sigma>) = (Some err, w')"
      and "\<not> errors_Is err ErrClaimDoesNotExist"
  shows "fst (RevokeClaim s request \<sigma>) =
           (Some (RevokeClaim500JSONResponse (N500JSONResponse (Error err))), None)"
  using assms by (simp add: RevokeClaim_def invoke_result)

lemma GetRevocationStatus_failure:
  assumes "claims_GetRevocationStatus (claimService s) (grs_Identifier request)
             (uint64 (grs_Nonce request)) (fst \<sigma>) = (Inl err, w')"
  shows "fst (GetRevocationStatus P s request \<sigma>) =
           (Some (GetRevocationStatus500JSONResponse (N500JSONResponse (Error err))), None)"
  using assms by (simp add: GetRevocationStatus_def invoke_result)

lemma GetClaim_lookup_failure:
  assumes "gc_Identifier request \<noteq> ''''"
      and "core_ParseDID P (gc_Identifier request) = Inr did"
      and "gc_Id request \<noteq> ''''"
      and "uuid_Parse P (gc_Id request) = Inr clID"
      and "claims_GetByID (claimService s) did clID (fst \<sigma>) = (Inl err, w')"
  shows "fst (GetClaim P s request \<sigma>) =
           (Some (if errors_Is err ErrClaimNotFound
                  then GetClaim404JSONResponse (N404JSONResponse (Error err))
                  else GetClaim500JSONResponse (N500JSONResponse (Error err))), None)"
  using assms by (simp add: GetClaim_def invoke_result)

lemma GetClaim_conversion_failure:
  assumes "gc_Identifier request \<noteq> ''''"
      and "core_ParseDID P (gc_Identifier request) = Inr did"
      and "gc_Id request \<noteq> ''''"
      and "uuid_Parse P (gc_Id request) = Inr clID"
      and "claims_GetByID (claimService s) did clID (fst \<sigma>) = (Inr claim, w1)"
      and "schema_FromClaimModelToW3CCredential (schemaService s) claim w1 = (Inl err, w2)"
  shows "fst (GetClaim P s request \<sigma>) =
           (Some (GetClaim500JSONResponse (N500JSONResponse ''invalid claim format'')), None)"
  using assms by (simp add: GetClaim_def invoke_result)

lemma GetClaims_failure:
  assumes "gcs_Identifier request \<noteq> ''''"
      and "core_ParseDID P (gcs_Identifier request) = Inr did"
      and "ports_NewClaimsFilter P
             (gp_SchemaHash (gcs_Params request)) (gp_SchemaType (gcs_Params request))
             (gp_Subject (gcs_Params request)) (gp_QueryField (gcs_Params request))
             (gp_Self (gcs_Params request)) (gp_Revoked (gcs_Params request)) = Inr flt"
      and "claims_GetAll (claimService s) did flt (fst \<sigma>) = (Inl err, w')"
  shows "fst (GetClaims P s request \<sigma>) =
           (Some (GetClaims500JSONResponse (N500JSONResponse
              ''there was an internal error trying to retrieve claims for the requested identifier'')),
            None)"
  using assms by (simp add: GetClaims_def invoke_result)

lemma GetIdentities_failure:
  assumes "identity_Get (identityService s) (fst \<sigma>) = (Inl err, w')"
  shows "fst (GetIdentities s \<sigma>) =
           (Some (GetIdentities500JSONResponse (N500JSONResponse (Error err))), None)"
  using assms by (simp add: GetIdentities_def invoke_result)

lemma Agent_unpack_failure:
  assumes "agr_Body request = Some body" and "body \<noteq> ''''"
      and "pm_UnpackWithType (packageManager s) (packers_MediaTypeZKPMessage P) (bytes body)
             (fst \<sigma>) = (Inl err, w')"
  shows "fst (Agent P s request \<sigma>) =
           (Some (Agent400JSONResponse (N400JSONResponse ''can not proceed with the given request'')),
            None)"
  using assms by (simp add: Agent_def invoke_result)

lemma Agent_handler_failure:
  assumes "agr_Body request = Some body" and "body \<noteq> ''''"
      and "pm_UnpackWithType (packageManager s) (packers_MediaTypeZKPMessage P) (bytes body)
             (fst \<sigma>) = (Inr msg, w1)"
      and "ports_NewAgentRequest P msg = Inr req"
      and "claims_Agent (claimService s) req w1 = (Inl err, w2)"
  shows "fst (Agent P s request \<sigma>) =
           (Some (Agent400JSONResponse (N400JSONResponse (Error err))), None)"
  using assms by (simp add: Agent_def invoke_result)

text \<open>
  C7, as the claim states it, fails: when the claims service fails in \<open>GetClaims\<close> with
  the message "connection reset", the 500 response carries a fixed text instead.
\<close>

theorem GetClaims_generic_message_counterexample:
  "fst (GetClaims example_packages
          (example_server (failing ClaimsService_GetAll (New (OtherError 7) ''connection reset''))
             (example_status False None []))
          \<lparr>gcs_Identifier = ''did:iden3:x'',
           gcs_Params = \<lparr>gp_SchemaHash = None, gp_SchemaType = None, gp_Subject = None,
                         gp_QueryField = None, gp_Self = None, gp_Revoked = None\<rparr>\<rparr> (0, [])) =
     (Some (GetClaims500JSONResponse (N500JSONResponse
        ''there was an internal error trying to retrieve claims for the requested identifier'')),
      None)"
  by (simp add: GetClaims_def invoke_def example_server_def failing_def answer_def
        example_packages_def)

text \<open>
  C7, amended. For \<open>CreateClaim\<close>, \<open>RevokeClaim\<close>, \<open>GetRevocationStatus\<close>, the lookup of
  \<open>GetClaim\<close>, \<open>GetIdentities\<close> and \<open>PublishIdentityState\<close>, every service error that is
  none of the sentinels the controller recognises yields the 500 response whose message is
  the message of that error. The other failures are answered differently: \<open>GetClaims\<close>
  and the credential conversion of \<open>GetClaim\<close> answer 500 with a fixed message; \<open>Agent\<close>
  answers 400, with a fixed message when unpacking fails and with the message of the error
  when the agent handler fails; \<open>CreateIdentity\<close> returns no response object and the
  error itself.
\<close>

theorem unrecognised_error_outcomes:
  "(core_ParseDID P (cc_Identifier ccreq) = Inr did \<and>
    claims_CreateClaim (claimService s)
      (ports_NewCreateClaimRequest P did
         (ccb_CredentialSchema (cc_Body ccreq)) (ccb_CredentialSubject (cc_Body ccreq))
         (ccb_Expiration (cc_Body ccreq)) (ccb_Type (cc_Body ccreq))
         (ccb_Version (cc_Body ccreq)) (ccb_SubjectPosition (cc_Body ccreq))
         (ccb_MerklizedRootPosition (cc_Body ccreq)))
      (fst \<sigma>) = (Inl err, w') \<and>
    \<not> errors_Is err ErrJSONLdContext \<and> \<not> errors_Is err ErrProcessSchema \<and>
    \<not> errors_Is err ErrLoadingSchema \<and> \<not> errors_Is err ErrMalformedURL \<longrightarrow>
      fst (CreateClaim P s ccreq \<sigma>) =
        (Some (CreateClaim500JSONResponse (N500JSONResponse (Error err))), None)) \<and>
   (claims_Revoke (claimService s) (rv_Identifier rvreq) (uint64 (rv_Nonce rvreq)) ''''
      (fst \<sigma>) = (Some err, w') \<and>
    \<not> errors_Is err ErrClaimDoesNotExist \<longrightarrow>
      fst (RevokeClaim s rvreq \<sigma>) =
        (Some (RevokeClaim500JSONResponse (N500JSONResponse (Error err))), None)) \<and>
   (claims_GetRevocationStatus (claimService s) (grs_Identifier grsreq)
      (uint64 (grs_Nonce grsreq)) (fst \<sigma>) = (Inl err, w') \<longrightarrow>
      fst (GetRevocationStatus P s grsreq \<sigma>) =
        (Some (GetRevocationStatus500JSONResponse (N500JSONResponse (Error err))), None)) \<and>
   (gc_Identifier gcreq \<noteq> '''' \<and> core_ParseDID P (gc_Identifier gcreq) = Inr did \<and>
    gc_Id gcreq \<noteq> '''' \<and> uuid_Parse P (gc_Id gcreq) = Inr clID \<and>
    claims_GetByID (claimService s) did clID (fst \<sigma>) = (Inl err, w') \<and>
    \<not> errors_Is err ErrClaimNotFound \<longrightarrow>
      fst (GetClaim P s gcreq \<sigma>) =
        (Some (GetClaim500JSONResponse (N500JSONResponse (Error err))), None)) \<and>
   (identity_Get (identityService s) (fst \<sigma>) = (Inl err, w') \<longrightarrow>
      fst (GetIdentities s \<sigma>) =
        (Some (GetIdentities500JSONResponse (N500JSONResponse (Error err))), None)) \<and>
   (core_ParseDID P (pis_Identifier pisreq) = Inr did \<and>
    publisher_PublishState (publisherGateway s) did (fst \<sigma>) = (Inl err, w') \<and>
    \<not> errors_Is err ErrNoStatesToProcess \<and> \<not> errors_Is err ErrStateIsBeingProcessed \<longrightarrow>
      fst (PublishIdentityState P s pisreq \<sigma>) =
        (Some (PublishIdentityState500JSONResponse (N500JSONResponse (Error err))), None)) \<and>
   (gcs_Identifier gcsreq \<noteq> '''' \<and> core_ParseDID P (gcs_Identifier gcsreq) = Inr did \<and>
    ports_NewClaimsFilter P
      (gp_SchemaHash (gcs_Params gcsreq)) (gp_SchemaType (gcs_Params gcsreq))
      (gp_Subject (gcs_Params gcsreq)) (gp_QueryField (gcs_Params gcsreq))
      (gp_Self (gcs_Params gcsreq)) (gp_Revoked (gcs_Params gcsreq)) = Inr flt \<and>
    claims_GetAll (claimService s) did flt (fst \<sigma>) = (Inl err, w') \<longrightarrow>
      fst (GetClaims P s gcsreq \<sigma>) =
        (Some (GetClaims500JSONResponse (N500JSONResponse
           ''there was an internal error trying to retrieve claims for the requested identifier'')),
         None)) \<and>
   (gc_Identifier gcreq \<noteq> '''' \<and> core_ParseDID P (gc_Identifier gcreq) = Inr did \<and>
    gc_Id gcreq \<noteq> '''' \<and> uuid_Parse P (gc_Id gcreq) = Inr clID \<and>
    claims_GetByID (claimService s) did clID (fst \<sigma>) = (Inr claim, w'') \<and>
    schema_FromClaimModelToW3CCredential (schemaService s) claim w'' = (Inl err, w') \<longrightarrow>
      fst (GetClaim P s gcreq \<sigma>) =
        (Some (GetClaim500JSONResponse (N500JSONResponse ''invalid claim format'')), None)) \<and>
   (agr_Body agreq = Some body \<and> body \<noteq> '''' \<and>
    pm_UnpackWithType (packageManager s) (packers_MediaTypeZKPMessage P) (bytes body)
      (fst \<sigma>) = (Inl err, w') \<longrightarrow>
      fst (Agent P s agreq \<sigma>) =
        (Some (Agent400JSONResponse (N400JSONResponse ''can not proceed with the given request'')),
         None)) \<and>
   (agr_Body agreq = Some body \<and> body \<noteq> '''' \<and>
    pm_UnpackWithType (packageManager s) (packers_MediaTypeZKPMessage P) (bytes body)
      (fst \<sigma>) = (Inr msg, w'') \<and>
    ports_NewAgentRequest P msg = Inr req \<and>
    claims_Agent (claimService s) req w'' = (Inl err, w') \<longrightarrow>
      fst (Agent P s agreq \<sigma>) =
        (Some (Agent400JSONResponse (N400JSONResponse (Error err))), None)) \<and>
   (identity_Create (identityService s)
      (dm_Method (cib_DidMetadata (cir_Body cireq)))
      (dm_Blockchain (cib_DidMetadata (cir_Body cireq)))
      (dm_Network (cib_DidMetadata (cir_Body cireq)))
      (ServerUrl (cfg s)) (fst \<sigma>) = (Inl err, w') \<and>
    \<not> errors_Is err ErrWrongDIDMetada \<longrightarrow>
      fst (CreateIdentity s cireq \<sigma>) = (None, Some err))"
proof (intro conjI impI; (elim conjE)?)
  show "fst (CreateClaim P s ccreq \<sigma>) =
      (Some (CreateClaim500JSONResponse (N500JSONResponse (Error err))), None)"
    if "core_ParseDID P (cc_Identifier ccreq) = Inr did"
      and "claims_CreateClaim (claimService s)
        (ports_NewCreateClaimRequest P did
           (ccb_CredentialSchema (cc_Body ccreq)) (ccb_CredentialSubject (cc_Body ccreq))
           (ccb_Expiration (cc_Body ccreq)) (ccb_Type (cc_Body ccreq))
           (ccb_Version (cc_Body ccreq)) (ccb_SubjectPosition (cc_Body ccreq))
           (ccb_MerklizedRootPosition (cc_Body ccreq)))
        (fst \<sigma>) = (Inl err, w')"
      and "\<not> errors_Is err ErrJSONLdContext" and "\<not> errors_Is err ErrProcessSchema"
      and "\<not> errors_Is err ErrLoadingSchema" and "\<not> errors_Is err ErrMalformedURL"
    using that by (simp add: CreateClaim_failure)
  show "fst (RevokeClaim s rvreq \<sigma>) =
      (Some (RevokeClaim500JSONResponse (N500JSONResponse (Error err))), None)"
    if "claims_Revoke (claimService s) (rv_Identifier rvreq) (uint64 (rv_Nonce rvreq)) ''''
          (fst \<sigma>) = (Some err, w')"
      and "\<not> errors_Is err ErrClaimDoesNotExist"
    using that by (rule RevokeClaim_failure)
  show "fst (GetRevocationStatus P s grsreq \<sigma>) =
      (Some (GetRevocationStatus500JSONResponse (N500JSONResponse (Error err))), None)"
    if "claims_GetRevocationStatus (claimService s) (grs_Identifier grsreq)
          (uint64 (grs_Nonce grsreq)) (fst \<sigma>) = (Inl err, w')"
    using that by (rule GetRevocationStatus_failure)
  show "fst (GetClaim P s gcreq \<sigma>) =
      (Some (GetClaim500JSONResponse (N500JSONResponse (Error err))), None)"
    if "gc_Identifier gcreq \<noteq> ''''" and "core_ParseDID P (gc_Identifier gcreq) = Inr did"
      and "gc_Id gcreq \<noteq> ''''" and "uuid_Parse P (gc_Id gcreq) = Inr clID"
      and "claims_GetByID (claimService s) did clID (fst \<sigma>) = (Inl err, w')"
      and "\<not> errors_Is err ErrClaimNotFound"
    using that by (simp add: GetClaim_lookup_failure)
  show "fst (GetIdentities s \<sigma>) =
      (Some (GetIdentities500JSONResponse (N500JSONResponse (Error err))), None)"
    if "identity_Get (identityService s) (fst \<sigma>) = (Inl err, w')"
    using that by (rule GetIdentities_failure)
  show "fst (PublishIdentityState P s pisreq \<sigma>) =
      (Some (PublishIdentityState500JSONResponse (N500JSONResponse (Error err))), None)"
    if "core_ParseDID P (pis_Identifier pisreq) = Inr did"
      and "publisher_PublishState (publisherGateway s) did (fst \<sigma>) = (Inl err, w')"
      and "\<not> errors_Is err ErrNoStatesToProcess" and "\<not> errors_Is err ErrStateIsBeingProcessed"
    using that by (simp add: PublishIdentityState_failure)
  show "fst (GetClaims P s gcsreq \<sigma>) =
      (Some (GetClaims500JSONResponse (N500JSONResponse
         ''there was an internal error trying to retrieve claims for the requested identifier'')),
       None)"
    if "gcs_Identifier gcsreq \<noteq> ''''" and "core_ParseDID P (gcs_Identifier gcsreq) = Inr did"
      and "ports_NewClaimsFilter P
        (gp_SchemaHash (gcs_Params gcsreq)) (gp_SchemaType (gcs_Params gcsreq))
        (gp_Subject (gcs_Params gcsreq)) (gp_QueryField (gcs_Params gcsreq))
        (gp_Self (gcs_Params gcsreq)) (gp_Revoked (gcs_Params gcsreq)) = Inr flt"
      and "claims_GetAll (claimService s) did flt (fst \<sigma>) = (Inl err, w')"
    using that by (rule GetClaims_failure)
  show "fst (GetClaim P s gcreq \<sigma>) =
      (Some (GetClaim500JSONResponse (N500JSONResponse ''invalid claim format'')), None)"
    if "gc_Identifier gcreq \<noteq> ''''" and "core_ParseDID P (gc_Identifier gcreq) = Inr did"
      and "gc_Id gcreq \<noteq> ''''" and "uuid_Parse P (gc_Id gcreq) = Inr clID"
      and "claims_GetByID (claimService s) did clID (fst \<sigma>) = (Inr claim, w'')"
      and "schema_FromClaimModelToW3CCredential (schemaService s) claim w'' = (Inl err, w')"
    using that by (rule GetClaim_conversion_failure)
  show "fst (Agent P s agreq \<sigma>) =
      (Some (Agent400JSONResponse (N400JSONResponse ''can not proceed with the given request'')),
       None)"
    if "agr_Body agreq = Some body" and "body \<noteq> ''''"
      and "pm_UnpackWithType (packageManager s) (packers_MediaTypeZKPMessage P) (bytes body)
        (fst \<sigma>) = (Inl err, w')"
    using that by (rule Agent_unpack_failure)
  show "fst (Agent P s agreq \<sigma>) =
      (Some (Agent400JSONResponse (N400JSONResponse (Error err))), None)"
    if "agr_Body agreq = Some body" and "body \<noteq> ''''"
      and "pm_UnpackWithType (packageManager s) (packers_MediaTypeZKPMessage P) (bytes body)
        (fst \<sigma>) = (Inr msg, w'')"
      and "ports_NewAgentRequest P msg = Inr req"
      and "claims_Agent (claimService s) req w'' = (Inl err, w')"
    using that by (rule Agent_handler_failure)
  show "fst (CreateIdentity s cireq \<sigma>) = (None, Some err)"
    if "identity_Create (identityService s)
        (dm_Method (cib_DidMetadata (cir_Body cireq)))
        (dm_Blockchain (cib_DidMetadata (cir_Body cireq)))
        (dm_Network (cib_DidMetadata (cir_Body cireq)))
        (ServerUrl (cfg s)) (fst \<sigma>) = (Inl err, w')"
      and "\<not> errors_Is err ErrWrongDIDMetada"
    using that by (simp add: CreateIdentity_failure)
qed

theorem unrecognised_error_outcomes_witness:
  "fst (CreateClaim example_packages
          (example_server (failing ClaimsService_CreateClaim (New (OtherError 7) ''connection reset''))
             (example_status False None []))
          (example_create_request ''did:iden3:x'') (0, [])) =
     (Some (CreateClaim500JSONResponse (N500JSONResponse ''connection reset'')), None) \<and>
   fst (RevokeClaim
          (example_server (failing ClaimsService_Revoke (New (OtherError 7) ''connection reset''))
             (example_status False None []))
          \<lparr>rv_Identifier = ''did:iden3:x'', rv_Nonce = 3\<rparr> (0, [])) =
     (Some (RevokeClaim500JSONResponse (N500JSONResponse ''connection reset'')), None) \<and>
   fst (GetRevocationStatus example_packages
          (example_server
             (failing ClaimsService_GetRevocationStatus (New (OtherError 7) ''connection reset''))
             (example_status False None []))
          \<lparr>grs_Identifier = ''did:iden3:x'', grs_Nonce = 3\<rparr> (0, [])) =
     (Some (GetRevocationStatus500JSONResponse (N500JSONResponse ''connection reset'')), None) \<and>
   fst (GetClaim example_packages
          (example_server (failing ClaimsService_GetByID (New (OtherError 7) ''connection reset''))
             (example_status False None []))
          \<lparr>gc_Identifier = ''did:iden3:x'', gc_Id = ''8b7e1f0a-0000-4000-8000-000000000001''\<rparr>
          (0, [])) =
     (Some (GetClaim500JSONResponse (N500JSONResponse ''connection reset'')), None) \<and>
   fst (GetIdentities
          (example_server (failing IdentityService_Get (New (OtherError 7) ''connection reset''))
             (example_status False None []))
          (0, [])) =
     (Some (GetIdentities500JSONResponse (N500JSONResponse ''connection reset'')), None) \<and>
   fst (PublishIdentityState example_packages
          (example_server (failing Publisher_PublishState (New (OtherError 7) ''connection reset''))
             (example_status False None []))
          \<lparr>pis_Identifier = ''did:iden3:x''\<rparr> (0, [])) =
     (Some (PublishIdentityState500JSONResponse (N500JSONResponse ''connection reset'')), None) \<and>
   fst (GetClaims example_packages
          (example_server (failing ClaimsService_GetAll (New (OtherError 7) ''connection reset''))
             (example_status False None []))
          \<lparr>gcs_Identifier = ''did:iden3:x'',
           gcs_Params = \<lparr>gp_SchemaHash = None, gp_SchemaType = None, gp_Subject = None,
                         gp_QueryField = None, gp_Self = None, gp_Revoked = None\<rparr>\<rparr> (0, [])) =
     (Some (GetClaims500JSONResponse (N500JSONResponse
        ''there was an internal error trying to retrieve claims for the requested identifier'')),
      None) \<and>
   fst (GetClaim example_packages
          (example_server
             (failing SchemaService_FromClaimModelToW3CCredential
                (New (OtherError 7) ''connection reset''))
             (example_status False None []))
          \<lparr>gc_Identifier = ''did:iden3:x'', gc_Id = ''8b7e1f0a-0000-4000-8000-000000000001''\<rparr>
          (0, [])) =
     (Some (GetClaim500JSONResponse (N500JSONResponse ''invalid claim format'')), None) \<and>
   fst (Agent example_packages
          (example_server
             (failing PackageManager_UnpackWithType (New (OtherError 7) ''connection reset''))
             (example_status False None []))
          \<lparr>agr_Body = Some ''{}''\<rparr> (0, [])) =
     (Some (Agent400JSONResponse (N400JSONResponse ''can not proceed with the given request'')),
      None) \<and>
   fst (Agent example_packages
          (example_server (failing ClaimsService_Agent (New (OtherError 7) ''connection reset''))
             (example_status False None []))
          \<lparr>agr_Body = Some ''{}''\<rparr> (0, [])) =
     (Some (Agent400JSONResponse (N400JSONResponse ''connection reset'')), None) \<and>
   fst (CreateIdentity
          (example_server (failing IdentityService_Create (New (OtherError 7) ''connection reset''))
             (example_status False None []))
          \<lparr>cir_Body = \<lparr>cib_DidMetadata =
             \<lparr>dm_Method = ''polygonid'', dm_Blockchain = ''polygon'', dm_Network = ''mumbai''\<rparr>\<rparr>\<rparr>
          (0, [])) =
     (None, Some (New (OtherError 7) ''connection reset''))"
proof -
  note at_example = unrecognised_error_outcomes
    [where P = example_packages and \<sigma> = "(0, [])"
       and err = "New (OtherError 7) ''connection reset''"
       and did = "DID ''did:iden3:x''"
       and clID = "UUID ''8b7e1f0a-0000-4000-8000-000000000001''"
       and flt = "ClaimsFilter JNull" and claim = example_claim
       and body = "''{}''" and msg = "BasicMessage (JString ''fetch'')"
       and req = "AgentRequest (JString ''fetch'')"
       and ccreq = "example_create_request ''did:iden3:x''"
       and rvreq = "\<lparr>rv_Identifier = ''did:iden3:x'', rv_Nonce = 3\<rparr>"
       and grsreq = "\<lparr>grs_Identifier = ''did:iden3:x'', grs_Nonce = 3\<rparr>"
       and gcreq = "\<lparr>gc_Identifier = ''did:iden3:x'',
                      gc_Id = ''8b7e1f0a-0000-4000-8000-000000000001''\<rparr>"
       and pisreq = "\<lparr>pis_Identifier = ''did:iden3:x''\<rparr>"
       and gcsreq = "\<lparr>gcs_Identifier = ''did:iden3:x'',
                       gcs_Params = \<lparr>gp_SchemaHash = None, gp_SchemaType = None, gp_Subject = None,
                                     gp_QueryField = None, gp_Self = None, gp_Revoked = None\<rparr>\<rparr>"
       and agreq = "\<lparr>agr_Body = Some ''{}''\<rparr>"
       and cireq = "\<lparr>cir_Body = \<lparr>cib_DidMetadata =
                      \<lparr>dm_Method = ''polygonid'', dm_Blockchain = ''polygon'',
                       dm_Network = ''mumbai''\<rparr>\<rparr>\<rparr>"
       and w'' = "Suc 0"]
  let ?srv = "\<lambda>c. example_server (failing c (New (OtherError 7) ''connection reset''))
                     (example_status False None [])"
  show ?thesis
    using at_example [where s = "?srv ClaimsService_CreateClaim" and w' = "Suc 0"]
      at_example [where s = "?srv ClaimsService_Revoke" and w' = "Suc 0"]
      at_example [where s = "?srv ClaimsService_GetRevocationStatus" and w' = "Suc 0"]
      at_example [where s = "?srv ClaimsService_GetByID" and w' = "Suc 0"]
      at_example [where s = "?srv IdentityService_Get" and w' = "Suc 0"]
      at_example [where s = "?srv Publisher_PublishState" and w' = "Suc 0"]
      at_example [where s = "?srv ClaimsService_GetAll" and w' = "Suc 0"]
      at_example [where s = "?srv SchemaService_FromClaimModelToW3CCredential"
                    and w' = "Suc (Suc 0)"]
      at_example [where s = "?srv PackageManager_UnpackWithType" and w' = "Suc 0"]
      at_example [where s = "?srv ClaimsService_Agent" and w' = "Suc (Suc 0)"]
      at_example [where s = "?srv IdentityService_Create" and w' = "Suc 0"]
    by (simp add: example_server_def failing_def answer_def example_packages_def
          example_create_request_def)
qed

end
